theory Spec2Isabelle
  imports Main
begin

section \<open>Errors\<close>

text \<open>
  An error value of the Go code. The API server answers with a status error that carries
  a reason (\<open>metav1.StatusReason\<close>, a string type); \<open>wait.ErrWaitTimeout\<close> is the error
  of an expired poll; \<open>fmt.Errorf\<close> is kept as its format with its text and error
  arguments, unrendered; any other error with just a message is \<open>OtherError\<close>. The last
  three are the errors of net/url: \<open>url.EscapeError\<close>, \<open>url.InvalidHostError\<close> and
  \<open>url.Error\<close> with its operation, its text and its cause.
\<close>

datatype error =
    StatusError string
  | ErrWaitTimeout
  | Errorf string "string list" "error list"
  | OtherError string
  | EscapeError string
  | InvalidHostError string
  | UrlError string string error

definition StatusReasonAlreadyExists :: string where
  "StatusReasonAlreadyExists = ''AlreadyExists''"

definition StatusReasonNotFound :: string where
  "StatusReasonNotFound = ''NotFound''"

text \<open>\<open>errors.IsAlreadyExists\<close> and \<open>errors.IsNotFound\<close> compare the reason of a status
  error; a nil error and an error of another kind have neither reason.\<close>

fun IsAlreadyExists :: "error option \<Rightarrow> bool" where
  "IsAlreadyExists (Some (StatusError r)) = (r = StatusReasonAlreadyExists)"
| "IsAlreadyExists _ = False"

fun IsNotFound :: "error option \<Rightarrow> bool" where
  "IsNotFound (Some (StatusError r)) = (r = StatusReasonNotFound)"
| "IsNotFound _ = False"

text \<open>A Go call either returns or panics (here: on a nil pointer dereference).\<close>

datatype 'a go = Return 'a | Panic

section \<open>Data model\<close>

text \<open>Modelled from the spec: \<open>makeOwnerReference\<close> and the owner reference type are not
  in the source at hand. The spec calls the result the ownership link from a Secret or
  ConfigMap back to its Claim; the link names the Claim by kind, name and UID.\<close>

record OwnerReference =
  ref_Kind :: string
  ref_Name :: string
  ref_UID :: string

text \<open>\<open>metav1.ObjectMeta\<close>, with the fields the code reads or writes.\<close>

record ObjectMeta =
  Name :: string
  Namespace :: string
  UID :: string
  Finalizers :: "string list"
  OwnerReferences :: "OwnerReference list"

definition ObjectMeta_zero :: ObjectMeta where
  "ObjectMeta_zero =
     \<lparr>Name = [], Namespace = [], UID = [], Finalizers = [], OwnerReferences = []\<rparr>"

record Endpoint =
  BucketHost :: string
  BucketPort :: int
  BucketName :: string
  Region :: string
  SubRegion :: string
  SSL :: bool

text \<open>Modelled from the spec: the \<open>Authentication\<close> type and its method \<open>ToMap\<close> are not
  in the source at hand. The spec describes a value object that carries credential
  key-value pairs and produces an open key-value mapping.\<close>

record Authentication =
  credentials :: "(string \<times> string) list"

definition ToMap :: "Authentication \<Rightarrow> (string \<rightharpoonup> string)" where
  "ToMap auth = map_of (credentials auth)"

text \<open>Modelled from the spec: the \<open>Connection\<close> type is not in the source at hand; the
  spec describes it as endpoint and authentication bundled together.\<close>

record Connection =
  conn_Endpoint :: "Endpoint option"
  conn_Authentication :: "Authentication option"

text \<open>The claim (\<open>v1alpha1.ObjectBucketClaim\<close>): its metadata, the fields of \<open>Spec\<close> the
  code reads, and \<open>Status.Phase\<close>. The phase types are string types.\<close>

record ObjectBucketClaim =
  obc_ObjectMeta :: ObjectMeta
  Spec_StorageClassName :: string
  Spec_BucketName :: string
  Spec_SSL :: bool
  obc_Status_Phase :: string

record ObjectBucket =
  ob_ObjectMeta :: ObjectMeta
  ob_Spec_Connection :: "Connection option"
  ob_Status_Phase :: string

record ConfigMap =
  cm_ObjectMeta :: ObjectMeta
  cm_Data :: "string \<rightharpoonup> string"

record Secret =
  sec_ObjectMeta :: ObjectMeta
  sec_StringData :: "string \<rightharpoonup> string"

section \<open>The resource store\<close>

text \<open>
  The clients are Go interfaces, so the model takes them as records of operations over a
  store state \<open>'s\<close> that every call may change. An operation returns Go's pair of a
  result pointer (\<open>None\<close> is nil) and an error (\<open>None\<close> is nil). A namespaced operation
  takes the namespace first. The operations do not write to the object they are given.
\<close>

record 's kubernetes_Interface =
  Secrets_Create :: "string \<Rightarrow> Secret option \<Rightarrow> 's \<Rightarrow> (Secret option \<times> error option) \<times> 's"
  Secrets_Get :: "string \<Rightarrow> string \<Rightarrow> 's \<Rightarrow> (Secret option \<times> error option) \<times> 's"
  Secrets_Update :: "string \<Rightarrow> Secret option \<Rightarrow> 's \<Rightarrow> (Secret option \<times> error option) \<times> 's"
  ConfigMaps_Create ::
    "string \<Rightarrow> ConfigMap option \<Rightarrow> 's \<Rightarrow> (ConfigMap option \<times> error option) \<times> 's"
  ConfigMaps_Get :: "string \<Rightarrow> string \<Rightarrow> 's \<Rightarrow> (ConfigMap option \<times> error option) \<times> 's"
  ConfigMaps_Update ::
    "string \<Rightarrow> ConfigMap option \<Rightarrow> 's \<Rightarrow> (ConfigMap option \<times> error option) \<times> 's"

record 's versioned_Interface =
  ObjectBuckets_Create ::
    "ObjectBucket option \<Rightarrow> 's \<Rightarrow> (ObjectBucket option \<times> error option) \<times> 's"
  ObjectBuckets_Update ::
    "ObjectBucket option \<Rightarrow> 's \<Rightarrow> (ObjectBucket option \<times> error option) \<times> 's"
  ObjectBuckets_UpdateStatus ::
    "ObjectBucket option \<Rightarrow> 's \<Rightarrow> (ObjectBucket option \<times> error option) \<times> 's"
  ObjectBuckets_Delete :: "string \<Rightarrow> 's \<Rightarrow> error option \<times> 's"
  ObjectBucketClaims_Get ::
    "string \<Rightarrow> string \<Rightarrow> 's \<Rightarrow> (ObjectBucketClaim option \<times> error option) \<times> 's"
  ObjectBucketClaims_Update ::
    "string \<Rightarrow> ObjectBucketClaim option \<Rightarrow> 's \<Rightarrow>
       (ObjectBucketClaim option \<times> error option) \<times> 's"
  ObjectBucketClaims_UpdateStatus ::
    "string \<Rightarrow> ObjectBucketClaim option \<Rightarrow> 's \<Rightarrow>
       (ObjectBucketClaim option \<times> error option) \<times> 's"

section \<open>Polling\<close>

text \<open>
  \<open>wait.PollImmediate interval timeout condition\<close> of k8s.io/apimachinery calls the
  condition at once; an error of the condition ends the poll with that error, a true
  result ends it with nil. Otherwise \<open>WaitFor\<close> calls the condition again on every tick
  of the interval and, when the timeout closes the channel, one last time, before it
  gives \<open>ErrWaitTimeout\<close>. Time is not modelled: in place of \<open>retryInterval\<close> and
  \<open>retryTimeout\<close> the model takes \<open>ticks\<close>, the number of ticks the poller delivers
  before the timeout (the interval and the timeout positive). The state \<open>'s\<close> of a
  condition holds the variables its closure captures and the store.
\<close>

fun WaitFor :: "nat \<Rightarrow> ('s \<Rightarrow> (bool \<times> error option) \<times> 's) \<Rightarrow> 's \<Rightarrow> error option \<times> 's" where
  "WaitFor 0 fn s =
     (case fn s of ((ok, err), s') \<Rightarrow>
        if err \<noteq> None then (err, s')
        else if ok then (None, s')
        else (Some ErrWaitTimeout, s'))"
| "WaitFor (Suc ticks) fn s =
     (case fn s of ((ok, err), s') \<Rightarrow>
        if err \<noteq> None then (err, s')
        else if ok then (None, s')
        else WaitFor ticks fn s')"

definition PollImmediate ::
  "nat \<Rightarrow> ('s \<Rightarrow> (bool \<times> error option) \<times> 's) \<Rightarrow> 's \<Rightarrow> error option \<times> 's" where
  "PollImmediate ticks condition s =
     (case condition s of ((done, err), s') \<Rightarrow>
        if err \<noteq> None then (err, s')
        else if done then (None, s')
        else WaitFor ticks condition s')"

section \<open>Package provisioner: synthesizers\<close>

text \<open>\<open>finalizer = api.Domain + "/finalizer"\<close>; the constant \<open>api.Domain\<close> is declared
  outside the source at hand and is a parameter \<open>domain\<close> of the model.\<close>

definition finalizer :: "string \<Rightarrow> string" where
  "finalizer domain = domain @ ''/finalizer''"

text \<open>Modelled from the spec: \<open>makeOwnerReference\<close> is not in the source at hand; it
  builds the ownership link back to the Claim it is given.\<close>

definition makeOwnerReference :: "ObjectBucketClaim \<Rightarrow> OwnerReference" where
  "makeOwnerReference obc =
     \<lparr>ref_Kind = ''ObjectBucketClaim'',
      ref_Name = Name (obc_ObjectMeta obc),
      ref_UID = UID (obc_ObjectMeta obc)\<rparr>"

text \<open>Modelled from the spec: \<open>removeFinalizer\<close> is not in the source at hand; it
  removes the finalizer token from the finalizer set of the object it is given.\<close>

definition removeFinalizer :: "string \<Rightarrow> ObjectMeta \<Rightarrow> ObjectMeta" where
  "removeFinalizer domain m =
     m\<lparr>Finalizers := filter (\<lambda>f. f \<noteq> finalizer domain) (Finalizers m)\<rparr>"

text \<open>\<open>strconv.Itoa\<close> and \<open>strconv.FormatBool\<close> of the Go library.\<close>

fun digits :: "nat \<Rightarrow> string" where
  "digits n =
     (if n < 10 then [''0123456789'' ! n]
      else digits (n div 10) @ [''0123456789'' ! (n mod 10)])"

declare digits.simps [simp del]

definition Itoa :: "int \<Rightarrow> string" where
  "Itoa i = (if i < 0 then CHR ''-'' # digits (nat (- i)) else digits (nat i))"

definition FormatBool :: "bool \<Rightarrow> string" where
  "FormatBool b = (if b then ''true'' else ''false'')"



definition newCredentialsSecret ::
  "string \<Rightarrow> ObjectBucketClaim option \<Rightarrow> Authentication option \<Rightarrow> error + Secret" where
  "newCredentialsSecret domain obc auth =
     (case obc of
        None \<Rightarrow> Inl (Errorf ''ObjectBucketClaim required to generate secret'' [] [])
      | Some obc \<Rightarrow>
     (case auth of
        None \<Rightarrow> Inl (Errorf ''got nil authentication, nothing to do'' [] [])
      | Some auth \<Rightarrow>
          Inr \<lparr>sec_ObjectMeta =
                 \<lparr>Name = Name (obc_ObjectMeta obc),
                  Namespace = Namespace (obc_ObjectMeta obc),
                  UID = [],
                  Finalizers = [finalizer domain],
                  OwnerReferences = [makeOwnerReference obc]\<rparr>,
               sec_StringData = ToMap auth\<rparr>))"

section \<open>Package provisioner: create\<close>

text \<open>The condition of \<open>createObjectBucket\<close> writes the variable \<open>result\<close> of the
  enclosing function; \<open>err\<close> is what the poll returns.\<close>

definition createObjectBucket_condition ::
  "ObjectBucket option \<Rightarrow> 's versioned_Interface \<Rightarrow> ObjectBucket option \<times> 's \<Rightarrow>
     (bool \<times> error option) \<times> (ObjectBucket option \<times> 's)" where
  "createObjectBucket_condition ob c st =
     (case st of (result, s) \<Rightarrow>
      (case ObjectBuckets_Create c ob s of ((result', err), s') \<Rightarrow>
         let err' = (if IsAlreadyExists err then None else err)
         in ((err' = None, err'), (result', s'))))"

definition createObjectBucket ::
  "ObjectBucket option \<Rightarrow> 's versioned_Interface \<Rightarrow> nat \<Rightarrow> 's \<Rightarrow>
     (ObjectBucket option \<times> error option) go \<times> 's" where
  "createObjectBucket ob c ticks s =
     (case ob of
        None \<Rightarrow> (Panic, s)
      | Some _ \<Rightarrow>
          (case PollImmediate ticks (createObjectBucket_condition ob c) (None, s) of
             (err, (result, s')) \<Rightarrow> (Return (result, err), s')))"

text \<open>The condition of \<open>createSecret\<close> overwrites the variable \<open>secret\<close> with what
  \<open>Create\<close> returned, and its own \<open>err\<close> hides the one of the enclosing function. The
  condition reads \<open>obc.Namespace\<close>; the claim is not reassigned, so the model takes the
  nil case (a panic, which \<open>newCredentialsSecret\<close> excludes) before the poll.\<close>

definition createSecret_condition ::
  "ObjectBucketClaim \<Rightarrow> 's kubernetes_Interface \<Rightarrow> Secret option \<times> 's \<Rightarrow>
     (bool \<times> error option) \<times> (Secret option \<times> 's)" where
  "createSecret_condition obc c st =
     (case st of (secret, s) \<Rightarrow>
      (case Secrets_Create c (Namespace (obc_ObjectMeta obc)) secret s of
         ((secret', err), s') \<Rightarrow>
           if err \<noteq> None then
             (if IsAlreadyExists err then ((True, err), (secret', s'))
              else ((False, None), (secret', s')))
           else ((True, None), (secret', s'))))"

definition createSecret ::
  "string \<Rightarrow> ObjectBucketClaim option \<Rightarrow> Authentication option \<Rightarrow> 's kubernetes_Interface \<Rightarrow>
     nat \<Rightarrow> 's \<Rightarrow> (Secret option \<times> error option) go \<times> 's" where
  "createSecret domain obc auth c ticks s =
     (case newCredentialsSecret domain obc auth of
        Inl err \<Rightarrow> (Return (None, Some err), s)
      | Inr secret \<Rightarrow>
     (case obc of
        None \<Rightarrow> (Panic, s)
      | Some obc \<Rightarrow>
          (case PollImmediate ticks (createSecret_condition obc c) (Some secret, s) of
             (err, (secret', s')) \<Rightarrow> (Return (secret', err), s'))))"



section \<open>Package provisioner: release\<close>

text \<open>The release functions return an error (\<open>None\<close> is nil). A \<open>Get\<close> that returns
  neither an object nor an error leaves a nil pointer, and removing its finalizer panics.\<close>

definition releaseConfigMap ::
  "string \<Rightarrow> ConfigMap option \<Rightarrow> 's kubernetes_Interface \<Rightarrow> 's \<Rightarrow> error option go \<times> 's" where
  "releaseConfigMap domain cm c s =
     (case cm of
        None \<Rightarrow> (Return None, s)
      | Some cm0 \<Rightarrow>
     (case ConfigMaps_Get c (Namespace (cm_ObjectMeta cm0)) (Name (cm_ObjectMeta cm0)) s of
        ((cm1, err), s1) \<Rightarrow>
          if err \<noteq> None then (Return err, s1)
          else
     (case cm1 of
        None \<Rightarrow> (Panic, s1)
      | Some cm1 \<Rightarrow>
          let cm2 = cm1\<lparr>cm_ObjectMeta := removeFinalizer domain (cm_ObjectMeta cm1)\<rparr> in
          (case ConfigMaps_Update c (Namespace (cm_ObjectMeta cm2)) (Some cm2) s1 of
             ((cm3, err), s2) \<Rightarrow>
               if err \<noteq> None then (Return err, s2) else (Return None, s2)))))"

definition releaseSecret ::
  "string \<Rightarrow> Secret option \<Rightarrow> 's kubernetes_Interface \<Rightarrow> 's \<Rightarrow> error option go \<times> 's" where
  "releaseSecret domain sec c s =
     (case sec of
        None \<Rightarrow> (Return None, s)
      | Some sec0 \<Rightarrow>
     (case Secrets_Get c (Namespace (sec_ObjectMeta sec0)) (Name (sec_ObjectMeta sec0)) s of
        ((sec1, err), s1) \<Rightarrow>
          if err \<noteq> None then (Return err, s1)
          else
     (case sec1 of
        None \<Rightarrow> (Panic, s1)
      | Some sec1 \<Rightarrow>
          let sec2 = sec1\<lparr>sec_ObjectMeta := removeFinalizer domain (sec_ObjectMeta sec1)\<rparr> in
          (case Secrets_Update c (Namespace (sec_ObjectMeta sec2)) (Some sec2) s1 of
             ((sec3, err), s2) \<Rightarrow>
               if err \<noteq> None then (Return err, s2) else (Return None, s2)))))"

definition releaseOBC ::
  "string \<Rightarrow> ObjectBucketClaim option \<Rightarrow> 's versioned_Interface \<Rightarrow> 's \<Rightarrow>
     error option go \<times> 's" where
  "releaseOBC domain obc c s =
     (case obc of
        None \<Rightarrow> (Return None, s)
      | Some obc0 \<Rightarrow>
          let obcNsName = Namespace (obc_ObjectMeta obc0) @ ''/'' @ Name (obc_ObjectMeta obc0) in
     (case ObjectBucketClaims_Get c
             (Namespace (obc_ObjectMeta obc0)) (Name (obc_ObjectMeta obc0)) s of
        ((obc1, err), s1) \<Rightarrow>
     (case err of
        Some e \<Rightarrow>
          (Return (Some (Errorf ''unable to Get obc %q in order to remove finalizer: %v''
             [obcNsName] [e])), s1)
      | None \<Rightarrow>
     (case obc1 of
        None \<Rightarrow> (Panic, s1)
      | Some obc1 \<Rightarrow>
          let obc2 = obc1\<lparr>obc_ObjectMeta := removeFinalizer domain (obc_ObjectMeta obc1)\<rparr> in
          (case ObjectBucketClaims_Update c (Namespace (obc_ObjectMeta obc2)) (Some obc2) s1 of
             ((obc3, err), s2) \<Rightarrow>
               (case err of
                  Some e \<Rightarrow>
                    (Return (Some (Errorf
                       ''unable to Update obc %q to reflect removed finalizer: %v''
                       [obcNsName] [e])), s2)
                | None \<Rightarrow> (Return None, s2)))))))"

text \<open>\<open>deleteObjectBucket\<close> removes the finalizer from the object of its caller, through
  the pointer; the model returns that object next to the error. After the update the
  variable \<open>ob\<close> holds what \<open>Update\<close> returned, and reading its name panics when that is
  nil.\<close>

definition deleteObjectBucket ::
  "string \<Rightarrow> ObjectBucket option \<Rightarrow> 's versioned_Interface \<Rightarrow> 's \<Rightarrow>
     (error option go \<times> ObjectBucket option) \<times> 's" where
  "deleteObjectBucket domain ob c s =
     (case ob of
        None \<Rightarrow> ((Return None, None), s)
      | Some ob0 \<Rightarrow>
          let ob1 = ob0\<lparr>ob_ObjectMeta := removeFinalizer domain (ob_ObjectMeta ob0)\<rparr> in
     (case ObjectBuckets_Update c (Some ob1) s of
        ((ob2, err), s1) \<Rightarrow>
          if err \<noteq> None then ((Return err, Some ob1), s1)
          else
     (case ob2 of
        None \<Rightarrow> ((Panic, Some ob1), s1)
      | Some ob2 \<Rightarrow>
          (case ObjectBuckets_Delete c (Name (ob_ObjectMeta ob2)) s1 of
             (err, s2) \<Rightarrow>
               (case err of
                  Some e \<Rightarrow>
                    if IsNotFound err then ((Return None, Some ob1), s2)
                    else ((Return (Some (Errorf ''error deleting ObjectBucket %q: %v''
                            [Name (ob_ObjectMeta ob2)] [e])), Some ob1), s2)
                | None \<Rightarrow> ((Return None, Some ob1), s2))))))"

section \<open>Package provisioner: updates\<close>

definition updateClaim_condition ::
  "ObjectBucketClaim \<Rightarrow> 's versioned_Interface \<Rightarrow> ObjectBucketClaim option \<times> 's \<Rightarrow>
     (bool \<times> error option) \<times> (ObjectBucketClaim option \<times> 's)" where
  "updateClaim_condition obc c st =
     (case st of (result, s) \<Rightarrow>
      (case ObjectBucketClaims_Update c (Namespace (obc_ObjectMeta obc)) (Some obc) s of
         ((result', err), s') \<Rightarrow> ((err = None, err), (result', s'))))"

definition updateClaim ::
  "'s versioned_Interface \<Rightarrow> ObjectBucketClaim option \<Rightarrow> nat \<Rightarrow> 's \<Rightarrow>
     (ObjectBucketClaim option \<times> error option) go \<times> 's" where
  "updateClaim c obc ticks s =
     (case obc of
        None \<Rightarrow> (Panic, s)
      | Some obc \<Rightarrow>
          (case PollImmediate ticks (updateClaim_condition obc c) (None, s) of
             (err, (result, s')) \<Rightarrow> (Return (result, err), s')))"

text \<open>The phase updaters write the phase into the object of their caller, through the
  pointer, before the poll; the model returns that object next to the result.\<close>

definition updateObjectBucketClaimPhase_condition ::
  "ObjectBucketClaim \<Rightarrow> 's versioned_Interface \<Rightarrow> ObjectBucketClaim option \<times> 's \<Rightarrow>
     (bool \<times> error option) \<times> (ObjectBucketClaim option \<times> 's)" where
  "updateObjectBucketClaimPhase_condition obc c st =
     (case st of (result, s) \<Rightarrow>
      (case ObjectBucketClaims_UpdateStatus c (Namespace (obc_ObjectMeta obc)) (Some obc) s of
         ((result', err), s') \<Rightarrow> ((err = None, err), (result', s'))))"

definition updateObjectBucketClaimPhase ::
  "'s versioned_Interface \<Rightarrow> ObjectBucketClaim option \<Rightarrow> string \<Rightarrow> nat \<Rightarrow> 's \<Rightarrow>
     ((ObjectBucketClaim option \<times> error option) go \<times> ObjectBucketClaim option) \<times> 's" where
  "updateObjectBucketClaimPhase c obc phase ticks s =
     (case obc of
        None \<Rightarrow> ((Panic, None), s)
      | Some obc0 \<Rightarrow>
          let obc1 = obc0\<lparr>obc_Status_Phase := phase\<rparr> in
          (case PollImmediate ticks (updateObjectBucketClaimPhase_condition obc1 c) (None, s) of
             (err, (result, s')) \<Rightarrow> ((Return (result, err), Some obc1), s')))"

definition updateObjectBucketPhase_condition ::
  "ObjectBucket \<Rightarrow> 's versioned_Interface \<Rightarrow> ObjectBucket option \<times> 's \<Rightarrow>
     (bool \<times> error option) \<times> (ObjectBucket option \<times> 's)" where
  "updateObjectBucketPhase_condition ob c st =
     (case st of (result, s) \<Rightarrow>
      (case ObjectBuckets_UpdateStatus c (Some ob) s of
         ((result', err), s') \<Rightarrow> ((err = None, err), (result', s'))))"

definition updateObjectBucketPhase ::
  "'s versioned_Interface \<Rightarrow> ObjectBucket option \<Rightarrow> string \<Rightarrow> nat \<Rightarrow> 's \<Rightarrow>
     ((ObjectBucket option \<times> error option) go \<times> ObjectBucket option) \<times> 's" where
  "updateObjectBucketPhase c ob phase ticks s =
     (case ob of
        None \<Rightarrow> ((Panic, None), s)
      | Some ob0 \<Rightarrow>
          let ob1 = ob0\<lparr>ob_Status_Phase := phase\<rparr> in
          (case PollImmediate ticks (updateObjectBucketPhase_condition ob1 c) (None, s) of
             (err, (result, s')) \<Rightarrow> ((Return (result, err), Some ob1), s')))"

section \<open>Package util\<close>



definition util_BucketName :: string where "util_BucketName = ''BUCKET_NAME''"
definition util_BucketHost :: string where "util_BucketHost = ''BUCKET_HOST''"
definition util_BucketPort :: string where "util_BucketPort = ''BUCKET_PORT''"
definition util_BucketRegion :: string where "util_BucketRegion = ''BUCKET_REGION''"
definition util_BucketSubRegion :: string where "util_BucketSubRegion = ''BUCKET_SUBREGION''"
definition util_BucketURL :: string where "util_BucketURL = ''BUCKET_URL''"
definition util_BucketSSL :: string where "util_BucketSSL = ''BUCKET_SSL''"


definition NewObjectBucket ::
  "ObjectBucketClaim option \<Rightarrow> Connection option \<Rightarrow> ObjectBucket go" where
  "NewObjectBucket obc connection =
     (case obc of
        None \<Rightarrow> Panic
      | Some obc \<Rightarrow>
          Return \<lparr>ob_ObjectMeta =
                    \<lparr>Name = ''obc-'' @ Namespace (obc_ObjectMeta obc) @ ''-''
                              @ Name (obc_ObjectMeta obc),
                     Namespace = [], UID = [], Finalizers = [], OwnerReferences = []\<rparr>,
                  ob_Spec_Connection = connection,
                  ob_Status_Phase = []\<rparr>)"

text \<open>\<open>client.Client\<close> of controller-runtime: \<open>Create\<close> returns an error and writes the
  stored object back into the object it is given.\<close>

record ('o, 's) client_Client =
  client_Create :: "'o \<Rightarrow> 's \<Rightarrow> (error option \<times> 'o) \<times> 's"

definition CreateUntilDefaultTimeout_condition ::
  "('o, 's) client_Client \<Rightarrow> 'o \<times> 's \<Rightarrow> (bool \<times> error option) \<times> ('o \<times> 's)" where
  "CreateUntilDefaultTimeout_condition c st =
     (case st of (obj, s) \<Rightarrow>
      (case client_Create c obj s of
         ((err, obj'), s') \<Rightarrow>
           if err \<noteq> None \<and> \<not> IsAlreadyExists err then ((False, err), (obj', s'))
           else ((True, None), (obj', s'))))"

text \<open>The poll runs with \<open>DefaultRetryBaseInterval\<close> (10 s) and \<open>DefaultRetryTimeout\<close>
  (360 s); \<open>ticks\<close> is the number of ticks these deliver. The object is returned next to
  the error, as its caller sees it afterwards.\<close>

definition CreateUntilDefaultTimeout ::
  "'o \<Rightarrow> ('o, 's) client_Client option \<Rightarrow> nat \<Rightarrow> 's \<Rightarrow> (error option \<times> 'o) \<times> 's" where
  "CreateUntilDefaultTimeout obj c ticks s =
     (case c of
        None \<Rightarrow> ((Some (Errorf ''error creating object, nil client'' [] []), obj), s)
      | Some c \<Rightarrow>
          (case PollImmediate ticks (CreateUntilDefaultTimeout_condition c) (obj, s) of
             (err, (obj', s')) \<Rightarrow> ((err, obj'), s')))"

text \<open>\<open>strings.ToLower\<close>: a text of ASCII bytes only is mapped byte by byte, \<open>A\<close> to \<open>Z\<close>
  to \<open>a\<close> to \<open>z\<close>. A text with a byte from 0x80 on is mapped rune by rune through the
  Unicode tables, which are not modelled: that mapping is the parameter
  \<open>unicode_lower\<close>.\<close>

definition ascii_lower :: "char \<Rightarrow> char" where
  "ascii_lower c =
     (case map_of (zip ''ABCDEFGHIJKLMNOPQRSTUVWXYZ'' ''abcdefghijklmnopqrstuvwxyz'') c of
        Some l \<Rightarrow> l
      | None \<Rightarrow> c)"






text \<open>\<open>GenerateBucketName\<close>; the random suffix \<open>rand.String suffixLen\<close> is the parameter
  \<open>suf\<close>.\<close>

definition suffixLen :: nat where "suffixLen = 5"

definition GenerateBucketName :: "string \<Rightarrow> string \<Rightarrow> string" where
  "GenerateBucketName suf prefix = (if prefix = [] then suf else prefix @ ''-'' @ suf)"

section \<open>Observing the store\<close>

text \<open>A call of a client, with its arguments.\<close>

datatype call =
    Secrets_Create_call string "Secret option"
  | Secrets_Get_call string string
  | Secrets_Update_call string "Secret option"
  | ConfigMaps_Create_call string "ConfigMap option"
  | ConfigMaps_Get_call string string
  | ConfigMaps_Update_call string "ConfigMap option"
  | ObjectBuckets_Create_call "ObjectBucket option"
  | ObjectBuckets_Update_call "ObjectBucket option"
  | ObjectBuckets_UpdateStatus_call "ObjectBucket option"
  | ObjectBuckets_Delete_call string
  | ObjectBucketClaims_Get_call string string
  | ObjectBucketClaims_Update_call string "ObjectBucketClaim option"
  | ObjectBucketClaims_UpdateStatus_call string "ObjectBucketClaim option"

text \<open>\<open>traced\<close> turns a client into one that also records every call it receives, in
  order; the record is the first component of its state.\<close>

definition logged :: "call \<Rightarrow> ('s \<Rightarrow> 'r \<times> 's) \<Rightarrow> call list \<times> 's \<Rightarrow> 'r \<times> (call list \<times> 's)" where
  "logged k f st = (case st of (calls, s) \<Rightarrow> (case f s of (r, s') \<Rightarrow> (r, (calls @ [k], s'))))"

definition traced_kubernetes ::
  "'s kubernetes_Interface \<Rightarrow> (call list \<times> 's) kubernetes_Interface" where
  "traced_kubernetes c =
     \<lparr>Secrets_Create = (\<lambda>ns x. logged (Secrets_Create_call ns x) (Secrets_Create c ns x)),
      Secrets_Get = (\<lambda>ns n. logged (Secrets_Get_call ns n) (Secrets_Get c ns n)),
      Secrets_Update = (\<lambda>ns x. logged (Secrets_Update_call ns x) (Secrets_Update c ns x)),
      ConfigMaps_Create =
        (\<lambda>ns x. logged (ConfigMaps_Create_call ns x) (ConfigMaps_Create c ns x)),
      ConfigMaps_Get = (\<lambda>ns n. logged (ConfigMaps_Get_call ns n) (ConfigMaps_Get c ns n)),
      ConfigMaps_Update =
        (\<lambda>ns x. logged (ConfigMaps_Update_call ns x) (ConfigMaps_Update c ns x))\<rparr>"

definition traced_versioned ::
  "'s versioned_Interface \<Rightarrow> (call list \<times> 's) versioned_Interface" where
  "traced_versioned c =
     \<lparr>ObjectBuckets_Create =
        (\<lambda>x. logged (ObjectBuckets_Create_call x) (ObjectBuckets_Create c x)),
      ObjectBuckets_Update =
        (\<lambda>x. logged (ObjectBuckets_Update_call x) (ObjectBuckets_Update c x)),
      ObjectBuckets_UpdateStatus =
        (\<lambda>x. logged (ObjectBuckets_UpdateStatus_call x) (ObjectBuckets_UpdateStatus c x)),
      ObjectBuckets_Delete =
        (\<lambda>n. logged (ObjectBuckets_Delete_call n) (ObjectBuckets_Delete c n)),
      ObjectBucketClaims_Get =
        (\<lambda>ns n. logged (ObjectBucketClaims_Get_call ns n) (ObjectBucketClaims_Get c ns n)),
      ObjectBucketClaims_Update =
        (\<lambda>ns x. logged (ObjectBucketClaims_Update_call ns x)
           (ObjectBucketClaims_Update c ns x)),
      ObjectBucketClaims_UpdateStatus =
        (\<lambda>ns x. logged (ObjectBucketClaims_UpdateStatus_call ns x)
           (ObjectBucketClaims_UpdateStatus c ns x))\<rparr>"

text \<open>A store for concrete runs. Its state is a script, one entry for each call to come:
  \<open>Some e\<close> makes the call fail with \<open>e\<close> and return no object, \<open>None\<close> (and a used-up
  script) makes it succeed. A successful create or update returns the object it was
  given; a successful get returns the object the store was built with.\<close>

fun answer :: "'a option \<Rightarrow> error option list \<Rightarrow> ('a option \<times> error option) \<times> error option list" where
  "answer x [] = ((x, None), [])"
| "answer x (None # script) = ((x, None), script)"
| "answer x (Some e # script) = ((None, Some e), script)"

definition scripted_kubernetes ::
  "Secret option \<Rightarrow> ConfigMap option \<Rightarrow> (error option list) kubernetes_Interface" where
  "scripted_kubernetes sec cm =
     \<lparr>Secrets_Create = (\<lambda>ns x. answer x),
      Secrets_Get = (\<lambda>ns n. answer sec),
      Secrets_Update = (\<lambda>ns x. answer x),
      ConfigMaps_Create = (\<lambda>ns x. answer x),
      ConfigMaps_Get = (\<lambda>ns n. answer cm),
      ConfigMaps_Update = (\<lambda>ns x. answer x)\<rparr>"

definition scripted_versioned ::
  "ObjectBucketClaim option \<Rightarrow> (error option list) versioned_Interface" where
  "scripted_versioned obc =
     \<lparr>ObjectBuckets_Create = answer,
      ObjectBuckets_Update = answer,
      ObjectBuckets_UpdateStatus = answer,
      ObjectBuckets_Delete =
        (\<lambda>n script. case script of [] \<Rightarrow> (None, []) | e # script' \<Rightarrow> (e, script')),
      ObjectBucketClaims_Get = (\<lambda>ns n. answer obc),
      ObjectBucketClaims_Update = (\<lambda>ns x. answer x),
      ObjectBucketClaims_UpdateStatus = (\<lambda>ns x. answer x)\<rparr>"

text \<open>Objects for concrete runs.\<close>

definition claim_c1 :: ObjectBucketClaim where
  "claim_c1 =
     \<lparr>obc_ObjectMeta =
        \<lparr>Name = ''c1'', Namespace = ''ns1'', UID = ''uid-1'',
         Finalizers = [finalizer ''objectbucket.io''], OwnerReferences = []\<rparr>,
      Spec_StorageClassName = ''sc'', Spec_BucketName = ''b1'', Spec_SSL = True,
      obc_Status_Phase = ''Pending''\<rparr>"

definition endpoint_e1 :: Endpoint where
  "endpoint_e1 =
     \<lparr>BucketHost = ''s3.example.com'', BucketPort = 0, BucketName = ''b1'',
      Region = ''us'', SubRegion = ''east'', SSL = True\<rparr>"

definition bucket_b1 :: ObjectBucket where
  "bucket_b1 =
     \<lparr>ob_ObjectMeta =
        \<lparr>Name = ''obc-ns1-c1'', Namespace = [], UID = ''uid-2'',
         Finalizers = [finalizer ''objectbucket.io''], OwnerReferences = []\<rparr>,
      ob_Spec_Connection = None, ob_Status_Phase = ''Pending''\<rparr>"


text \<open>A store operation that fails on every call with an error other than "already
  exists".\<close>

definition always_transient :: "('s \<Rightarrow> ('r \<times> error option) \<times> 's) \<Rightarrow> bool" where
  "always_transient f =
     (\<forall>s. snd (fst (f s)) \<noteq> None \<and> \<not> IsAlreadyExists (snd (fst (f s))))"

section \<open>Go library: path\<close>

text \<open>\<open>path.Clean\<close>. The loop reads the rest of the path and writes to the buffer \<open>out\<close>;
  \<open>dotdot\<close> is the length of the buffer below which a \<open>..\<close> element must not cut.\<close>

function backtrack :: "string \<Rightarrow> nat \<Rightarrow> nat \<Rightarrow> nat" where
  "backtrack out dotdot w =
     (if w > dotdot \<and> out ! w \<noteq> CHR ''/'' then backtrack out dotdot (w - 1) else w)"
  by pat_completeness auto
termination
  by (relation "measure (\<lambda>(out, dotdot, w). w)") auto

declare backtrack.simps [simp del]

definition at_element_end :: "string \<Rightarrow> bool" where
  "at_element_end rest = (case rest of [] \<Rightarrow> True | c # _ \<Rightarrow> c = CHR ''/'')"

function Clean_loop :: "bool \<Rightarrow> string \<Rightarrow> string \<Rightarrow> nat \<Rightarrow> string" where
  "Clean_loop rooted [] out dotdot = out"
| "Clean_loop rooted (c # rest) out dotdot =
     (if c = CHR ''/'' then Clean_loop rooted rest out dotdot
      else if c = CHR ''.'' \<and> at_element_end rest then Clean_loop rooted rest out dotdot
      else if c = CHR ''.'' \<and> take 1 rest = ''.'' \<and> at_element_end (drop 1 rest) then
        (if length out > dotdot then
           Clean_loop rooted (drop 1 rest) (take (backtrack out dotdot (length out - 1)) out) dotdot
         else if \<not> rooted then
           (let out' = (if length out > 0 then out @ ''/'' else out) @ ''..''
            in Clean_loop rooted (drop 1 rest) out' (length out'))
         else Clean_loop rooted (drop 1 rest) out dotdot)
      else
        (let out' = (if rooted \<and> length out \<noteq> 1 \<or> \<not> rooted \<and> length out \<noteq> 0
                     then out @ ''/'' else out)
         in Clean_loop rooted (dropWhile (\<lambda>x. x \<noteq> CHR ''/'') rest)
              (out' @ c # takeWhile (\<lambda>x. x \<noteq> CHR ''/'') rest) dotdot))"
  by pat_completeness auto
termination
  by (relation "measure (\<lambda>(rooted, rest, out, dotdot). length rest)")
     (simp_all (no_asm) add: less_Suc_eq_le length_dropWhile_le)

declare Clean_loop.simps [simp del]

definition Clean :: "string \<Rightarrow> string" where
  "Clean path =
     (if path = [] then ''.''
      else
        let rooted = (hd path = CHR ''/'');
            out = (if rooted then Clean_loop True (tl path) ''/'' 1
                   else Clean_loop False path [] 0)
        in if out = [] then ''.'' else out)"

text \<open>\<open>strings.Join\<close> with the separator \<open>/\<close>, and \<open>path.Join\<close>.\<close>

fun strings_Join :: "string list \<Rightarrow> string" where
  "strings_Join [] = []"
| "strings_Join [e] = e"
| "strings_Join (e # es) = e @ ''/'' @ strings_Join es"

fun path_Join :: "string list \<Rightarrow> string" where
  "path_Join [] = []"
| "path_Join (e # es) = (if e \<noteq> [] then Clean (strings_Join (e # es)) else path_Join es)"

declare path_Join.simps [simp del]

section \<open>Go library: net/url\<close>

text \<open>\<open>url.Parse\<close> and \<open>URL.String\<close> of the Go library (as of Go 1.13), on bytes.\<close>

datatype encoding =
    encodePath | encodePathSegment | encodeHost | encodeZone
  | encodeUserPassword | encodeQueryComponent | encodeFragment

definition byte :: "char \<Rightarrow> nat" where
  "byte c = of_char c"

text \<open>\<open>lo <= c && c <= hi\<close> on bytes.\<close>

definition between :: "char \<Rightarrow> char \<Rightarrow> char \<Rightarrow> bool" where
  "between lo c hi = (byte lo \<le> byte c \<and> byte c \<le> byte hi)"

definition shouldEscape :: "char \<Rightarrow> encoding \<Rightarrow> bool" where
  "shouldEscape c mode =
     (if between CHR ''A'' c CHR ''Z'' \<or> between CHR ''a'' c CHR ''z'' \<or> between CHR ''0'' c CHR ''9''
      then False
      else if (mode = encodeHost \<or> mode = encodeZone) \<and>
              (c \<in> set ''!$&()*+,;=:[]<>'' \<or> c = CHR 0x27 \<or> c = CHR 0x22)
      then False
      else if c \<in> set ''-_.~'' then False
      else if c \<in> set ''$&+,/:;=?@'' then
        (case mode of
           encodePath \<Rightarrow> c = CHR ''?''
         | encodePathSegment \<Rightarrow> c = CHR ''/'' \<or> c = CHR '';'' \<or> c = CHR '','' \<or> c = CHR ''?''
         | encodeUserPassword \<Rightarrow> c = CHR ''@'' \<or> c = CHR ''/'' \<or> c = CHR ''?'' \<or> c = CHR '':''
         | encodeQueryComponent \<Rightarrow> True
         | encodeFragment \<Rightarrow> False
         | _ \<Rightarrow> True)
      else True)"

definition ishex :: "char \<Rightarrow> bool" where
  "ishex c =
     (between CHR ''0'' c CHR ''9'' \<or> between CHR ''a'' c CHR ''f'' \<or> between CHR ''A'' c CHR ''F'')"

definition unhex :: "char \<Rightarrow> nat" where
  "unhex c =
     (if between CHR ''0'' c CHR ''9'' then byte c - byte CHR ''0''
      else if between CHR ''a'' c CHR ''f'' then byte c - byte CHR ''a'' + 10
      else if between CHR ''A'' c CHR ''F'' then byte c - byte CHR ''A'' + 10
      else 0)"

text \<open>\<open>unescape\<close>: the first pass of the Go code checks the text and the second decodes
  it; the model does both from left to right, and so gives the error the first pass
  finds first.\<close>

fun unescape :: "string \<Rightarrow> encoding \<Rightarrow> error + string" where
  "unescape [] mode = Inr []"
| "unescape (c # s) mode =
     (if c = CHR ''%'' then
        (case s of
           a # b # s' \<Rightarrow>
             if \<not> ishex a \<or> \<not> ishex b then Inl (EscapeError [c, a, b])
             else if mode = encodeHost \<and> unhex a < 8 \<and> [c, a, b] \<noteq> ''%25''
               then Inl (EscapeError [c, a, b])
             else if mode = encodeZone \<and> [c, a, b] \<noteq> ''%25'' \<and>
                     char_of (unhex a * 16 + unhex b) \<noteq> CHR '' '' \<and>
                     shouldEscape (char_of (unhex a * 16 + unhex b)) encodeHost
               then Inl (EscapeError [c, a, b])
             else (case unescape s' mode of
                     Inl e \<Rightarrow> Inl e
                   | Inr t \<Rightarrow> Inr (char_of (unhex a * 16 + unhex b) # t))
         | _ \<Rightarrow> Inl (EscapeError (c # s)))
      else if c = CHR ''+'' then
        (case unescape s mode of
           Inl e \<Rightarrow> Inl e
         | Inr t \<Rightarrow> Inr ((if mode = encodeQueryComponent then CHR '' '' else CHR ''+'') # t))
      else if (mode = encodeHost \<or> mode = encodeZone) \<and> byte c < 0x80 \<and>
              shouldEscape c encodeHost
        then Inl (InvalidHostError [c])
      else (case unescape s mode of
              Inl e \<Rightarrow> Inl e
            | Inr t \<Rightarrow> Inr (c # t)))"

definition upperhex :: string where
  "upperhex = ''0123456789ABCDEF''"

definition escape :: "string \<Rightarrow> encoding \<Rightarrow> string" where
  "escape s mode =
     concat (map (\<lambda>c.
       if c = CHR '' '' \<and> mode = encodeQueryComponent then ''+''
       else if shouldEscape c mode
         then [CHR ''%'', upperhex ! (byte c div 16), upperhex ! (byte c mod 16)]
       else [c]) s)"

text \<open>\<open>split s sep cutc\<close> cuts at the first \<open>sep\<close>, which goes with the second part
  unless \<open>cutc\<close>; without a \<open>sep\<close> the second part is empty.\<close>

definition split :: "string \<Rightarrow> char \<Rightarrow> bool \<Rightarrow> string \<times> string" where
  "split s sep cutc =
     (takeWhile (\<lambda>c. c \<noteq> sep) s,
      if cutc then drop 1 (dropWhile (\<lambda>c. c \<noteq> sep) s) else dropWhile (\<lambda>c. c \<noteq> sep) s)"

text \<open>\<open>strings.LastIndex\<close> of a byte and \<open>strings.Index\<close> of a text; \<open>None\<close> is -1.\<close>

definition LastIndex :: "string \<Rightarrow> char \<Rightarrow> nat option" where
  "LastIndex s c =
     (if c \<in> set s then Some (length s - 1 - length (takeWhile (\<lambda>x. x \<noteq> c) (rev s)))
      else None)"

fun Index :: "string \<Rightarrow> string \<Rightarrow> nat option" where
  "Index [] sub = (if sub = [] then Some 0 else None)"
| "Index (c # s) sub =
     (if take (length sub) (c # s) = sub then Some 0
      else map_option Suc (Index s sub))"

definition stringContainsCTLByte :: "string \<Rightarrow> bool" where
  "stringContainsCTLByte s = list_ex (\<lambda>b. byte b < 0x20 \<or> byte b = 0x7f) s"

text \<open>\<open>getscheme\<close>: \<open>pre\<close> is the text read so far and \<open>pre = []\<close> is \<open>i == 0\<close>.\<close>

fun getscheme_from :: "string \<Rightarrow> string \<Rightarrow> string \<Rightarrow> error + (string \<times> string)" where
  "getscheme_from rawurl pre [] = Inr ([], rawurl)"
| "getscheme_from rawurl pre (c # rest) =
     (if between CHR ''a'' c CHR ''z'' \<or> between CHR ''A'' c CHR ''Z''
        then getscheme_from rawurl (pre @ [c]) rest
      else if between CHR ''0'' c CHR ''9'' \<or> c = CHR ''+'' \<or> c = CHR ''-'' \<or> c = CHR ''.''
        then (if pre = [] then Inr ([], rawurl) else getscheme_from rawurl (pre @ [c]) rest)
      else if c = CHR '':''
        then (if pre = [] then Inl (OtherError ''missing protocol scheme'') else Inr (pre, rest))
      else Inr ([], rawurl))"

definition getscheme :: "string \<Rightarrow> error + (string \<times> string)" where
  "getscheme rawurl = getscheme_from rawurl [] rawurl"

definition validOptionalPort :: "string \<Rightarrow> bool" where
  "validOptionalPort port =
     (case port of
        [] \<Rightarrow> True
      | c # ds \<Rightarrow> c = CHR '':'' \<and> list_all (\<lambda>b. between CHR ''0'' b CHR ''9'') ds)"

definition validUserinfo :: "string \<Rightarrow> bool" where
  "validUserinfo s =
     list_all (\<lambda>r.
       between CHR ''A'' r CHR ''Z'' \<or> between CHR ''a'' r CHR ''z'' \<or> between CHR ''0'' r CHR ''9'' \<or>
       r \<in> set ''-._:~!$&()*+,;=%@'' \<or> r = CHR 0x27) s"

record Userinfo =
  username :: string
  password :: string
  passwordSet :: bool

record URL =
  Scheme :: string
  Opaque :: string
  User :: "Userinfo option"
  Host :: string
  Path :: string
  RawPath :: string
  ForceQuery :: bool
  RawQuery :: string
  Fragment :: string

definition URL_zero :: URL where
  "URL_zero =
     \<lparr>Scheme = [], Opaque = [], User = None, Host = [], Path = [], RawPath = [],
      ForceQuery = False, RawQuery = [], Fragment = []\<rparr>"

definition parseHost :: "string \<Rightarrow> error + string" where
  "parseHost host =
     (if take 1 host = ''['' then
        (case LastIndex host CHR '']'' of
           None \<Rightarrow> Inl (OtherError (''missing '' @ [CHR 0x27, CHR '']'', CHR 0x27] @ '' in host''))
         | Some i \<Rightarrow>
             let colonPort = drop (i + 1) host in
             if \<not> validOptionalPort colonPort
               then Inl (Errorf ''invalid port %q after host'' [colonPort] [])
             else
               (case Index (take i host) ''%25'' of
                  Some zone \<Rightarrow>
                    (case unescape (take zone host) encodeHost of
                       Inl e \<Rightarrow> Inl e
                     | Inr host1 \<Rightarrow>
                    (case unescape (drop zone (take i host)) encodeZone of
                       Inl e \<Rightarrow> Inl e
                     | Inr host2 \<Rightarrow>
                    (case unescape (drop i host) encodeHost of
                       Inl e \<Rightarrow> Inl e
                     | Inr host3 \<Rightarrow> Inr (host1 @ host2 @ host3))))
                | None \<Rightarrow> unescape host encodeHost))
      else
        (case LastIndex host CHR '':'' of
           Some i \<Rightarrow>
             let colonPort = drop i host in
             if \<not> validOptionalPort colonPort
               then Inl (Errorf ''invalid port %q after host'' [colonPort] [])
             else unescape host encodeHost
         | None \<Rightarrow> unescape host encodeHost))"

definition parseAuthority :: "string \<Rightarrow> error + (Userinfo option \<times> string)" where
  "parseAuthority authority =
     (case LastIndex authority CHR ''@'' of
        None \<Rightarrow>
          (case parseHost authority of Inl e \<Rightarrow> Inl e | Inr host \<Rightarrow> Inr (None, host))
      | Some i \<Rightarrow>
          (case parseHost (drop (i + 1) authority) of
             Inl e \<Rightarrow> Inl e
           | Inr host \<Rightarrow>
               let userinfo = take i authority in
               if \<not> validUserinfo userinfo then Inl (OtherError ''net/url: invalid userinfo'')
               else if CHR '':'' \<notin> set userinfo then
                 (case unescape userinfo encodeUserPassword of
                    Inl e \<Rightarrow> Inl e
                  | Inr u \<Rightarrow>
                      Inr (Some \<lparr>username = u, password = [], passwordSet = False\<rparr>, host))
               else
                 (case split userinfo CHR '':'' True of (username0, password0) \<Rightarrow>
                 (case unescape username0 encodeUserPassword of
                    Inl e \<Rightarrow> Inl e
                  | Inr u \<Rightarrow>
                 (case unescape password0 encodeUserPassword of
                    Inl e \<Rightarrow> Inl e
                  | Inr p \<Rightarrow>
                      Inr (Some \<lparr>username = u, password = p, passwordSet = True\<rparr>, host))))))"

definition setPath :: "URL \<Rightarrow> string \<Rightarrow> error + URL" where
  "setPath u p =
     (case unescape p encodePath of
        Inl e \<Rightarrow> Inl e
      | Inr path \<Rightarrow>
          Inr (u\<lparr>Path := path, RawPath := (if p = escape path encodePath then [] else p)\<rparr>))"

definition parse :: "string \<Rightarrow> bool \<Rightarrow> error + URL" where
  "parse rawurl viaRequest =
     (if stringContainsCTLByte rawurl
        then Inl (OtherError ''net/url: invalid control character in URL'')
      else if rawurl = [] \<and> viaRequest then Inl (OtherError ''empty url'')
      else if rawurl = ''*'' then Inr (URL_zero\<lparr>Path := ''*''\<rparr>)
      else
     (case getscheme rawurl of
        Inl e \<Rightarrow> Inl e
      | Inr (scheme0, rest0) \<Rightarrow>
          let url = URL_zero\<lparr>Scheme := map ascii_lower scheme0\<rparr>;
              force = (rest0 \<noteq> [] \<and> last rest0 = CHR ''?'' \<and> count_list rest0 CHR ''?'' = 1);
              rest1 = (if force then butlast rest0 else fst (split rest0 CHR ''?'' True));
              url = (if force then url\<lparr>ForceQuery := True\<rparr>
                     else url\<lparr>RawQuery := snd (split rest0 CHR ''?'' True)\<rparr>)
          in
          if take 1 rest1 \<noteq> ''/'' \<and> Scheme url \<noteq> [] then Inr (url\<lparr>Opaque := rest1\<rparr>)
          else if take 1 rest1 \<noteq> ''/'' \<and> viaRequest then Inl (OtherError ''invalid URI for request'')
          else if take 1 rest1 \<noteq> ''/'' \<and> CHR '':'' \<in> set rest1 \<and>
                  CHR ''/'' \<notin> set (takeWhile (\<lambda>c. c \<noteq> CHR '':'') rest1)
            then Inl (OtherError ''first path segment in URL cannot contain colon'')
          else if (Scheme url \<noteq> [] \<or> \<not> viaRequest \<and> take 3 rest1 \<noteq> ''///'') \<and>
                  take 2 rest1 = ''//''
            then
              (case split (drop 2 rest1) CHR ''/'' False of (authority, rest2) \<Rightarrow>
              (case parseAuthority authority of
                 Inl e \<Rightarrow> Inl e
               | Inr (user, host) \<Rightarrow> setPath (url\<lparr>User := user, Host := host\<rparr>) rest2))
          else setPath url rest1))"

definition Parse :: "string \<Rightarrow> error + URL" where
  "Parse rawurl =
     (case split rawurl CHR ''#'' True of (u, frag) \<Rightarrow>
     (case parse u False of
        Inl err \<Rightarrow> Inl (UrlError ''parse'' u err)
      | Inr url \<Rightarrow>
          if frag = [] then Inr url
          else
            (case unescape frag encodeFragment of
               Inl err \<Rightarrow> Inl (UrlError ''parse'' rawurl err)
             | Inr f \<Rightarrow> Inr (url\<lparr>Fragment := f\<rparr>))))"

definition validEncodedPath :: "string \<Rightarrow> bool" where
  "validEncodedPath s =
     list_all (\<lambda>c.
       c \<in> set ''!$&()*+,;=:@[]%'' \<or> c = CHR 0x27 \<or> \<not> shouldEscape c encodePath) s"

definition EscapedPath :: "URL \<Rightarrow> string" where
  "EscapedPath u =
     (if RawPath u \<noteq> [] \<and> validEncodedPath (RawPath u) \<and>
         unescape (RawPath u) encodePath = Inr (Path u)
        then RawPath u
      else if Path u = ''*'' then ''*''
      else escape (Path u) encodePath)"

definition Userinfo_String :: "Userinfo \<Rightarrow> string" where
  "Userinfo_String u =
     escape (username u) encodeUserPassword @
     (if passwordSet u then '':'' @ escape (password u) encodeUserPassword else [])"

definition String :: "URL \<Rightarrow> string" where
  "String u =
     (let buf = (if Scheme u \<noteq> [] then Scheme u @ '':'' else []);
          buf =
            (if Opaque u \<noteq> [] then buf @ Opaque u
             else
               let buf =
                     (if Scheme u \<noteq> [] \<or> Host u \<noteq> [] \<or> User u \<noteq> None then
                        buf @
                        (if Host u \<noteq> [] \<or> Path u \<noteq> [] \<or> User u \<noteq> None then ''//'' else []) @
                        (case User u of None \<Rightarrow> [] | Some ui \<Rightarrow> Userinfo_String ui @ ''@'') @
                        (if Host u \<noteq> [] then escape (Host u) encodeHost else [])
                      else buf);
                   path = EscapedPath u;
                   buf = (if path \<noteq> [] \<and> hd path \<noteq> CHR ''/'' \<and> Host u \<noteq> []
                          then buf @ ''/'' else buf);
                   buf = (if buf = [] \<and> CHR '':'' \<in> set path \<and>
                             CHR ''/'' \<notin> set (takeWhile (\<lambda>c. c \<noteq> CHR '':'') path)
                          then buf @ ''./'' else buf)
               in buf @ path);
          buf = (if ForceQuery u \<or> RawQuery u \<noteq> [] then buf @ ''?'' @ RawQuery u else buf);
          buf = (if Fragment u \<noteq> [] then buf @ ''#'' @ escape (Fragment u) encodeFragment
                 else buf)
      in buf)"

section \<open>Package util: the ConfigMap with its URL\<close>

definition NewBucketConfigMap ::
  "Endpoint option \<Rightarrow> ObjectBucketClaim option \<Rightarrow> error + ConfigMap" where
  "NewBucketConfigMap ep obc =
     (case (ep, obc) of
        (Some ep, Some obc) \<Rightarrow>
          let host = (if Spec_SSL obc then ''https://'' @ BucketHost ep
                      else ''http://'' @ BucketHost ep);
              host = (if BucketPort ep > 0 then host @ '':'' @ Itoa (BucketPort ep) else host);
              bucketPath = path_Join [Region ep, SubRegion ep, BucketName ep]
          in
          (case Parse (host @ ''/'' @ bucketPath) of
             Inl err \<Rightarrow> Inl (Errorf ''malformed bucket url %q: %v'' [bucketPath] [err])
           | Inr bucketURL \<Rightarrow>
               Inr \<lparr>cm_ObjectMeta =
                      \<lparr>Name = Name (obc_ObjectMeta obc),
                       Namespace = Namespace (obc_ObjectMeta obc),
                       UID = [], Finalizers = [], OwnerReferences = []\<rparr>,
                    cm_Data =
                      [util_BucketName \<mapsto> Spec_BucketName obc,
                       util_BucketHost \<mapsto> BucketHost ep,
                       util_BucketPort \<mapsto> Itoa (BucketPort ep),
                       util_BucketSSL \<mapsto> FormatBool (SSL ep),
                       util_BucketRegion \<mapsto> Region ep,
                       util_BucketSubRegion \<mapsto> SubRegion ep,
                       util_BucketURL \<mapsto> String bucketURL]\<rparr>)
      | _ \<Rightarrow>
          Inl (Errorf ''v1alpha1.Endpoint and v1alpha1.ObjectbucketClaim cannot be nil'' [] []))"

section \<open>Notions for the statements\<close>

text \<open>Plain text, on which the URL of a ConfigMap has a closed form: a host of letters,
  digits, \<open>-\<close> and \<open>.\<close>, and a path part that is empty or a plain segment (letters,
  digits, \<open>-\<close>, \<open>_\<close>, \<open>.\<close> and \<open>~\<close>, other than \<open>.\<close> and \<open>..\<close>).\<close>

definition alnum :: "char \<Rightarrow> bool" where
  "alnum c = (between CHR ''A'' c CHR ''Z'' \<or> between CHR ''a'' c CHR ''z'' \<or> between CHR ''0'' c CHR ''9'')"

definition segment_char :: "char \<Rightarrow> bool" where
  "segment_char c = (alnum c \<or> c = CHR ''-'' \<or> c = CHR ''_'' \<or> c = CHR ''.'' \<or> c = CHR ''~'')"

definition plain_segment :: "string \<Rightarrow> bool" where
  "plain_segment s = (s \<noteq> [] \<and> s \<noteq> ''.'' \<and> s \<noteq> ''..'' \<and> list_all segment_char s)"

definition segment_ok :: "string \<Rightarrow> bool" where
  "segment_ok s = (s = [] \<or> plain_segment s)"

definition host_char :: "char \<Rightarrow> bool" where
  "host_char c = (alnum c \<or> c = CHR ''-'' \<or> c = CHR ''.'')"

text \<open>The port segment: nothing, or a colon and decimal digits.\<close>

definition port_segment :: "string \<Rightarrow> bool" where
  "port_segment P =
     (case P of [] \<Rightarrow> True | c # ds \<Rightarrow> c = CHR '':'' \<and> list_all (\<lambda>b. between CHR ''0'' b CHR ''9'') ds)"

text \<open>The bytes of an authority and of a path of plain text, and what the parser needs
  of them.\<close>

definition authority_char :: "char \<Rightarrow> bool" where
  "authority_char c = (host_char c \<or> c = CHR '':'')"

definition path_char :: "char \<Rightarrow> bool" where
  "path_char c = (segment_char c \<or> c = CHR ''/'')"

definition authority_safe :: "char \<Rightarrow> bool" where
  "authority_safe c =
     (c \<noteq> CHR ''%'' \<and> c \<noteq> CHR ''+'' \<and> c \<noteq> CHR ''#'' \<and> c \<noteq> CHR ''?'' \<and> c \<noteq> CHR ''/'' \<and>
      c \<noteq> CHR ''@'' \<and> c \<noteq> CHR ''['' \<and> c \<noteq> CHR '' '' \<and>
      \<not> (byte c < 0x20 \<or> byte c = 0x7f) \<and> \<not> shouldEscape c encodeHost)"

definition path_safe :: "char \<Rightarrow> bool" where
  "path_safe c =
     (c \<noteq> CHR ''%'' \<and> c \<noteq> CHR ''+'' \<and> c \<noteq> CHR ''#'' \<and> c \<noteq> CHR ''?'' \<and> c \<noteq> CHR '' '' \<and>
      \<not> (byte c < 0x20 \<or> byte c = 0x7f) \<and> \<not> shouldEscape c encodePath)"

text \<open>The text that \<open>path.Clean\<close> builds from elements that are empty or plain.\<close>

fun joined :: "string \<Rightarrow> string list \<Rightarrow> string" where
  "joined out [] = out"
| "joined out (e # es) = joined (if e = [] then out else (if out = [] then [] else out @ ''/'') @ e) es"

text \<open>The text that \<open>NewBucketConfigMap\<close> hands to \<open>url.Parse\<close>: it is made of the SSL
  flag of the claim and of the endpoint.\<close>

definition bucketURL_text :: "bool \<Rightarrow> Endpoint \<Rightarrow> string" where
  "bucketURL_text ssl ep =
     (if ssl then ''https'' else ''http'') @ ''://'' @ BucketHost ep @
     (if BucketPort ep > 0 then '':'' @ Itoa (BucketPort ep) else []) @
     ''/'' @ path_Join [Region ep, SubRegion ep, BucketName ep]"

text \<open>The URL in the ConfigMap that \<open>NewBucketConfigMap\<close> returns, or its error.\<close>

definition BucketURL_of :: "Endpoint \<Rightarrow> ObjectBucketClaim \<Rightarrow> error + string option" where
  "BucketURL_of ep obc =
     (case NewBucketConfigMap (Some ep) (Some obc) of
        Inl err \<Rightarrow> Inl err
      | Inr cm \<Rightarrow> Inr (cm_Data cm util_BucketURL))"

text \<open>The URL as the spec composes it: \<open>scheme://host[:port]/region/subregion/bucketName\<close>.\<close>

definition BucketURL_spec :: "Endpoint \<Rightarrow> ObjectBucketClaim \<Rightarrow> string" where
  "BucketURL_spec ep obc =
     (if Spec_SSL obc then ''https'' else ''http'') @ ''://'' @ BucketHost ep @
     (if BucketPort ep > 0 then '':'' @ Itoa (BucketPort ep) else []) @
     ''/'' @ Region ep @ ''/'' @ SubRegion ep @ ''/'' @ BucketName ep"

text \<open>The same, with the empty ones of region, subregion and bucket name left out, each
  with its slash.\<close>

definition BucketURL_joined :: "Endpoint \<Rightarrow> ObjectBucketClaim \<Rightarrow> string" where
  "BucketURL_joined ep obc =
     (if Spec_SSL obc then ''https'' else ''http'') @ ''://'' @ BucketHost ep @
     (if BucketPort ep > 0 then '':'' @ Itoa (BucketPort ep) else []) @
     ''/'' @ strings_Join (filter (\<lambda>s. s \<noteq> []) [Region ep, SubRegion ep, BucketName ep])"







section \<open>The store observed\<close>

lemma logged_apply: "logged k f (calls, s) = (case f s of (r, s') \<Rightarrow> (r, (calls @ [k], s')))"
  by (simp add: logged_def)

lemma traced_kubernetes_simps:
  "Secrets_Create (traced_kubernetes c) ns x = logged (Secrets_Create_call ns x) (Secrets_Create c ns x)"
  "Secrets_Get (traced_kubernetes c) ns n = logged (Secrets_Get_call ns n) (Secrets_Get c ns n)"
  "Secrets_Update (traced_kubernetes c) ns x = logged (Secrets_Update_call ns x) (Secrets_Update c ns x)"
  "ConfigMaps_Create (traced_kubernetes c) ns y = logged (ConfigMaps_Create_call ns y) (ConfigMaps_Create c ns y)"
  "ConfigMaps_Get (traced_kubernetes c) ns n = logged (ConfigMaps_Get_call ns n) (ConfigMaps_Get c ns n)"
  "ConfigMaps_Update (traced_kubernetes c) ns y = logged (ConfigMaps_Update_call ns y) (ConfigMaps_Update c ns y)"
  by (simp_all add: traced_kubernetes_def)

lemma traced_versioned_simps:
  "ObjectBuckets_Create (traced_versioned v) b = logged (ObjectBuckets_Create_call b) (ObjectBuckets_Create v b)"
  "ObjectBuckets_Update (traced_versioned v) b = logged (ObjectBuckets_Update_call b) (ObjectBuckets_Update v b)"
  "ObjectBuckets_UpdateStatus (traced_versioned v) b =
     logged (ObjectBuckets_UpdateStatus_call b) (ObjectBuckets_UpdateStatus v b)"
  "ObjectBuckets_Delete (traced_versioned v) n = logged (ObjectBuckets_Delete_call n) (ObjectBuckets_Delete v n)"
  "ObjectBucketClaims_Get (traced_versioned v) ns n =
     logged (ObjectBucketClaims_Get_call ns n) (ObjectBucketClaims_Get v ns n)"
  "ObjectBucketClaims_Update (traced_versioned v) ns x =
     logged (ObjectBucketClaims_Update_call ns x) (ObjectBucketClaims_Update v ns x)"
  "ObjectBucketClaims_UpdateStatus (traced_versioned v) ns x =
     logged (ObjectBucketClaims_UpdateStatus_call ns x) (ObjectBucketClaims_UpdateStatus v ns x)"
  by (simp_all add: traced_versioned_def)

section \<open>Polling\<close>

text \<open>A poll ends at the first error of its condition and at its first success.\<close>

lemma PollImmediate_error:
  "cond st = ((d, Some e), st') \<Longrightarrow> PollImmediate ticks cond st = (Some e, st')"
  by (simp add: PollImmediate_def)

lemma PollImmediate_done:
  "cond st = ((True, None), st') \<Longrightarrow> PollImmediate ticks cond st = (None, st')"
  by (simp add: PollImmediate_def)

text \<open>A condition that reports "not done" exactly when it reports an error is called
  once: its first answer ends the poll, whatever the number of ticks.\<close>

lemma PollImmediate_once:
  assumes "\<And>st. fst (fst (cond st)) = (snd (fst (cond st)) = None)"
  shows "PollImmediate ticks cond st = (snd (fst (cond st)), snd (cond st))"
  using assms [of st] by (cases "cond st") (auto simp: PollImmediate_def)

section \<open>Create\<close>

text \<open>The condition of \<open>createObjectBucket\<close> returns \<open>(err == nil), err\<close>, so the poll
  makes one call of \<open>Create\<close> and returns its error, unless that is "already exists".\<close>

lemma createObjectBucket_one_attempt:
  "createObjectBucket (Some ob) c ticks s =
     (case ObjectBuckets_Create c (Some ob) s of
        ((result, err), s') \<Rightarrow> (Return (result, if IsAlreadyExists err then None else err), s'))"
proof -
  have "PollImmediate ticks (createObjectBucket_condition (Some ob) c) (None, s) =
          (snd (fst (createObjectBucket_condition (Some ob) c (None, s))),
           snd (createObjectBucket_condition (Some ob) c (None, s)))"
    by (rule PollImmediate_once)
       (auto simp: createObjectBucket_condition_def Let_def split: prod.splits)
  then show ?thesis
    by (auto simp: createObjectBucket_def createObjectBucket_condition_def Let_def
             split: prod.splits)
qed

text \<open>
  C1: a store error other than "already exists" is retried until the deadline. The
  sibling paths do so: \<open>createSecret\<close> (and \<open>createConfigMap\<close>, the same code) answers
  such an error with \<open>false, nil\<close>, and against a store that always fails it makes one
  call at once, one on every tick and a last one at the deadline, and returns
  \<open>ErrWaitTimeout\<close>.
\<close>

lemma createSecret_condition_transient:
  assumes "always_transient (Secrets_Create c (Namespace (obc_ObjectMeta obc)) sec)"
  shows "\<exists>r s1. createSecret_condition obc (traced_kubernetes c) (sec, (calls, s)) =
           ((False, None),
            (r, (calls @ [Secrets_Create_call (Namespace (obc_ObjectMeta obc)) sec], s1)))"
proof -
  obtain r e s1 where c: "Secrets_Create c (Namespace (obc_ObjectMeta obc)) sec s = ((r, e), s1)"
    by (metis prod.exhaust)
  with assms have "e \<noteq> None" "\<not> IsAlreadyExists e"
    by (auto simp: always_transient_def dest: spec [of _ s])
  with c show ?thesis
    by (simp add: createSecret_condition_def traced_kubernetes_simps logged_apply)
qed

lemma WaitFor_createSecret_transient:
  assumes "\<And>ns x. always_transient (Secrets_Create c ns x)"
  shows "\<exists>sec' calls' s'.
           WaitFor n (createSecret_condition obc (traced_kubernetes c)) (sec, (calls, s)) =
             (Some ErrWaitTimeout, (sec', (calls', s'))) \<and>
           length calls' = length calls + n + 1"
proof (induction n arbitrary: sec calls s)
  case 0
  from createSecret_condition_transient [OF assms, of obc sec calls s]
  show ?case by auto
next
  case (Suc n)
  from createSecret_condition_transient [OF assms, of obc sec calls s]
  obtain r s1 where
    step: "createSecret_condition obc (traced_kubernetes c) (sec, (calls, s)) =
       ((False, None),
        (r, (calls @ [Secrets_Create_call (Namespace (obc_ObjectMeta obc)) sec], s1)))"
    by blast
  from Suc.IH [of r "calls @ [Secrets_Create_call (Namespace (obc_ObjectMeta obc)) sec]" s1]
  show ?case by (auto simp: step)
qed

lemma createSecret_retries_until_deadline:
  assumes "\<And>ns x. always_transient (Secrets_Create c ns x)"
  shows "\<exists>sec' calls' s'.
           createSecret domain (Some obc) (Some auth) (traced_kubernetes c) ticks ([], s) =
             (Return (sec', Some ErrWaitTimeout), (calls', s')) \<and>
           length calls' = ticks + 2"
proof -
  have n: "newCredentialsSecret domain (Some obc) (Some auth) =
             Inr \<lparr>sec_ObjectMeta =
                   \<lparr>Name = Name (obc_ObjectMeta obc), Namespace = Namespace (obc_ObjectMeta obc),
                    UID = [], Finalizers = [finalizer domain],
                    OwnerReferences = [makeOwnerReference obc]\<rparr>,
                  sec_StringData = ToMap auth\<rparr>" (is "_ = Inr ?secret")
    by (simp add: newCredentialsSecret_def)
  from createSecret_condition_transient [OF assms, of obc "Some ?secret" "[]" s]
  obtain r s1 where
    step: "createSecret_condition obc (traced_kubernetes c) (Some ?secret, ([], s)) =
       ((False, None),
        (r, ([Secrets_Create_call (Namespace (obc_ObjectMeta obc)) (Some ?secret)], s1)))"
    by auto
  from WaitFor_createSecret_transient [OF assms, of ticks obc r
      "[Secrets_Create_call (Namespace (obc_ObjectMeta obc)) (Some ?secret)]" s1]
  show ?thesis
    by (auto simp: createSecret_def n PollImmediate_def step)
qed

text \<open>
  C1, on the code: \<open>createObjectBucket\<close> does not retry. Against a store whose first
  \<open>Create\<close> fails with a server timeout and whose second would succeed, with nine ticks
  left before the deadline, it makes one call and returns the server timeout.
\<close>

theorem createObjectBucket_transient_error_not_retried:
  "createObjectBucket (Some bucket_b1) (traced_versioned (scripted_versioned None)) 9
     ([], [Some (StatusError ''ServerTimeout''), None]) =
   (Return (None, Some (StatusError ''ServerTimeout'')),
    ([ObjectBuckets_Create_call (Some bucket_b1)], [None]))"
  by (simp add: createObjectBucket_one_attempt traced_versioned_def scripted_versioned_def
        logged_apply StatusReasonAlreadyExists_def)






section \<open>Release\<close>

text \<open>
  C5: every release function fetches the object before it removes the finalizer and
  writes the object back. Three of them do: the first call of \<open>releaseConfigMap\<close>,
  \<open>releaseSecret\<close> and \<open>releaseOBC\<close> is a \<open>Get\<close> by the namespace and name of the
  object given, and the one call that may follow is the \<open>Update\<close> of the object that
  \<open>Get\<close> returned, its finalizer removed.
\<close>

lemma releaseConfigMap_fetches_first:
  "fst (snd (releaseConfigMap domain (Some cm) (traced_kubernetes c) ([], s))) =
     ConfigMaps_Get_call (Namespace (cm_ObjectMeta cm)) (Name (cm_ObjectMeta cm)) #
     (case ConfigMaps_Get c (Namespace (cm_ObjectMeta cm)) (Name (cm_ObjectMeta cm)) s of
        ((Some cm', None), s') \<Rightarrow>
          [ConfigMaps_Update_call (Namespace (cm_ObjectMeta cm'))
             (Some (cm'\<lparr>cm_ObjectMeta := removeFinalizer domain (cm_ObjectMeta cm')\<rparr>))]
      | _ \<Rightarrow> [])"
  by (simp add: releaseConfigMap_def traced_kubernetes_simps logged_apply removeFinalizer_def
        Let_def split: prod.splits option.splits)

lemma releaseSecret_fetches_first:
  "fst (snd (releaseSecret domain (Some sec) (traced_kubernetes c) ([], s))) =
     Secrets_Get_call (Namespace (sec_ObjectMeta sec)) (Name (sec_ObjectMeta sec)) #
     (case Secrets_Get c (Namespace (sec_ObjectMeta sec)) (Name (sec_ObjectMeta sec)) s of
        ((Some sec', None), s') \<Rightarrow>
          [Secrets_Update_call (Namespace (sec_ObjectMeta sec'))
             (Some (sec'\<lparr>sec_ObjectMeta := removeFinalizer domain (sec_ObjectMeta sec')\<rparr>))]
      | _ \<Rightarrow> [])"
  by (simp add: releaseSecret_def traced_kubernetes_simps logged_apply removeFinalizer_def
        Let_def split: prod.splits option.splits)

lemma releaseOBC_fetches_first:
  "fst (snd (releaseOBC domain (Some obc) (traced_versioned c) ([], s))) =
     ObjectBucketClaims_Get_call (Namespace (obc_ObjectMeta obc)) (Name (obc_ObjectMeta obc)) #
     (case ObjectBucketClaims_Get c (Namespace (obc_ObjectMeta obc)) (Name (obc_ObjectMeta obc)) s of
        ((Some obc', None), s') \<Rightarrow>
          [ObjectBucketClaims_Update_call (Namespace (obc_ObjectMeta obc'))
             (Some (obc'\<lparr>obc_ObjectMeta := removeFinalizer domain (obc_ObjectMeta obc')\<rparr>))]
      | _ \<Rightarrow> [])"
  by (simp add: releaseOBC_def traced_versioned_simps logged_apply removeFinalizer_def Let_def
        split: prod.splits option.splits)

text \<open>\<open>deleteObjectBucket\<close> does not: its first call is the \<open>Update\<close> of the object its
  caller passed, the finalizer removed.\<close>

lemma deleteObjectBucket_first_call_is_update:
  "\<exists>rest. fst (snd (deleteObjectBucket domain (Some ob) (traced_versioned c) ([], s))) =
     ObjectBuckets_Update_call
       (Some (ob\<lparr>ob_ObjectMeta := removeFinalizer domain (ob_ObjectMeta ob)\<rparr>)) # rest"
  by (auto simp: deleteObjectBucket_def traced_versioned_simps logged_apply Let_def
        split: prod.splits option.splits)

text \<open>
  C5, on the code: releasing the bucket \<open>obc-ns1-c1\<close> against a store where every call
  succeeds makes two calls, an \<open>Update\<close> of the object passed in and a \<open>Delete\<close>; no
  call fetches the stored object first.
\<close>

theorem deleteObjectBucket_updates_without_fetching:
  "deleteObjectBucket ''objectbucket.io'' (Some bucket_b1)
     (traced_versioned (scripted_versioned None)) ([], []) =
   ((Return None, Some (bucket_b1\<lparr>ob_ObjectMeta := (ob_ObjectMeta bucket_b1)\<lparr>Finalizers := []\<rparr>\<rparr>)),
    ([ObjectBuckets_Update_call
        (Some (bucket_b1\<lparr>ob_ObjectMeta := (ob_ObjectMeta bucket_b1)\<lparr>Finalizers := []\<rparr>\<rparr>)),
      ObjectBuckets_Delete_call ''obc-ns1-c1''], []))"
  by (simp add: deleteObjectBucket_def traced_versioned_simps logged_apply scripted_versioned_def
        bucket_b1_def removeFinalizer_def finalizer_def Let_def)

text \<open>
  C6: release treats absence as success. Each of the four release functions, given a nil
  reference, returns a nil error and makes no call of the store (the record of calls
  stays empty and the store is unchanged). And when the update of a bucket succeeded and
  the delete that follows reports "not found", \<open>deleteObjectBucket\<close> returns a nil
  error.
\<close>

theorem release_of_absent_is_success:
  "releaseConfigMap domain None (traced_kubernetes ck) ([], s) = (Return None, ([], s)) \<and>
   releaseSecret domain None (traced_kubernetes ck) ([], s) = (Return None, ([], s)) \<and>
   releaseOBC domain None (traced_versioned cv) ([], t) = (Return None, ([], t)) \<and>
   deleteObjectBucket domain None (traced_versioned cv) ([], t) =
     ((Return None, None), ([], t)) \<and>
   (ObjectBuckets_Update cv
      (Some (ob\<lparr>ob_ObjectMeta := removeFinalizer domain (ob_ObjectMeta ob)\<rparr>)) t =
      ((Some obu, None), ta) \<and>
    ObjectBuckets_Delete cv (Name (ob_ObjectMeta obu)) ta = (Some e, tb) \<and>
    IsNotFound (Some e) \<longrightarrow>
    fst (fst (deleteObjectBucket domain (Some ob) cv t)) = Return None)"
  by (simp add: releaseConfigMap_def releaseSecret_def releaseOBC_def deleteObjectBucket_def)

text \<open>C6 at a store whose update succeeds and whose delete reports "not found".\<close>

theorem release_of_absent_is_success_witness:
  "releaseConfigMap ''objectbucket.io'' None (traced_kubernetes (scripted_kubernetes None None))
     ([], []) = (Return None, ([], [])) \<and>
   releaseSecret ''objectbucket.io'' None (traced_kubernetes (scripted_kubernetes None None))
     ([], []) = (Return None, ([], [])) \<and>
   releaseOBC ''objectbucket.io'' None (traced_versioned (scripted_versioned None))
     ([], [None, Some (StatusError ''NotFound'')]) =
     (Return None, ([], [None, Some (StatusError ''NotFound'')])) \<and>
   deleteObjectBucket ''objectbucket.io'' None (traced_versioned (scripted_versioned None))
     ([], [None, Some (StatusError ''NotFound'')]) =
     ((Return None, None), ([], [None, Some (StatusError ''NotFound'')])) \<and>
   fst (fst (deleteObjectBucket ''objectbucket.io'' (Some bucket_b1) (scripted_versioned None)
     [None, Some (StatusError ''NotFound'')])) = Return None"
proof -
  let ?b = "bucket_b1\<lparr>ob_ObjectMeta := removeFinalizer ''objectbucket.io'' (ob_ObjectMeta bucket_b1)\<rparr>"
  have upd: "ObjectBuckets_Update (scripted_versioned None) (Some ?b)
               [None, Some (StatusError ''NotFound'')] =
             ((Some ?b, None), [Some (StatusError ''NotFound'')])"
    by (simp add: scripted_versioned_def)
  have del: "ObjectBuckets_Delete (scripted_versioned None) (Name (ob_ObjectMeta ?b))
               [Some (StatusError ''NotFound'')] = (Some (StatusError ''NotFound''), [])"
    by (simp add: scripted_versioned_def)
  have nf: "IsNotFound (Some (StatusError ''NotFound''))"
    by (simp add: StatusReasonNotFound_def)
  from release_of_absent_is_success
    [where domain = "''objectbucket.io''" and ck = "scripted_kubernetes None None" and s = "[]"
       and cv = "scripted_versioned None" and t = "[None, Some (StatusError ''NotFound'')]"
       and ob = bucket_b1 and obu = ?b and e = "StatusError ''NotFound''"
       and ta = "[Some (StatusError ''NotFound'')]" and tb = "[]"]
    upd del nf
  show ?thesis by simp
qed

section \<open>Phase updates\<close>

text \<open>The conditions of the phase updaters return \<open>(err == nil), err\<close>: the poll makes
  one call of \<open>UpdateStatus\<close> and returns what that call returned.\<close>

lemma updateObjectBucketClaimPhase_one_attempt:
  "updateObjectBucketClaimPhase c (Some obc) phase ticks s =
     (case ObjectBucketClaims_UpdateStatus c (Namespace (obc_ObjectMeta obc))
             (Some (obc\<lparr>obc_Status_Phase := phase\<rparr>)) s of
        ((result, err), s') \<Rightarrow>
          ((Return (result, err), Some (obc\<lparr>obc_Status_Phase := phase\<rparr>)), s'))"
proof -
  let ?cond = "updateObjectBucketClaimPhase_condition (obc\<lparr>obc_Status_Phase := phase\<rparr>) c"
  have "PollImmediate ticks ?cond (None, s) = (snd (fst (?cond (None, s))), snd (?cond (None, s)))"
    by (rule PollImmediate_once)
       (auto simp: updateObjectBucketClaimPhase_condition_def split: prod.splits)
  then show ?thesis
    by (auto simp: updateObjectBucketClaimPhase_def updateObjectBucketClaimPhase_condition_def
          split: prod.splits)
qed

lemma updateObjectBucketPhase_one_attempt:
  "updateObjectBucketPhase c (Some ob) phase ticks s =
     (case ObjectBuckets_UpdateStatus c (Some (ob\<lparr>ob_Status_Phase := phase\<rparr>)) s of
        ((result, err), s') \<Rightarrow>
          ((Return (result, err), Some (ob\<lparr>ob_Status_Phase := phase\<rparr>)), s'))"
proof -
  let ?cond = "updateObjectBucketPhase_condition (ob\<lparr>ob_Status_Phase := phase\<rparr>) c"
  have "PollImmediate ticks ?cond (None, s) = (snd (fst (?cond (None, s))), snd (?cond (None, s)))"
    by (rule PollImmediate_once)
       (auto simp: updateObjectBucketPhase_condition_def split: prod.splits)
  then show ?thesis
    by (auto simp: updateObjectBucketPhase_def updateObjectBucketPhase_condition_def
          split: prod.splits)
qed

text \<open>
  C7, on the code: the phase updaters do not retry. Against a store whose first
  \<open>UpdateStatus\<close> fails with a server timeout and whose second would succeed, with nine
  ticks left before the deadline, each updater makes one call and returns the server
  timeout, not a timeout of the poll.
\<close>

theorem phase_update_transient_error_not_retried:
  "updateObjectBucketClaimPhase (traced_versioned (scripted_versioned None)) (Some claim_c1)
     ''Bound'' 9 ([], [Some (StatusError ''ServerTimeout''), None]) =
     ((Return (None, Some (StatusError ''ServerTimeout'')),
       Some (claim_c1\<lparr>obc_Status_Phase := ''Bound''\<rparr>)),
      ([ObjectBucketClaims_UpdateStatus_call ''ns1''
          (Some (claim_c1\<lparr>obc_Status_Phase := ''Bound''\<rparr>))], [None])) \<and>
   updateObjectBucketPhase (traced_versioned (scripted_versioned None)) (Some bucket_b1)
     ''Bound'' 9 ([], [Some (StatusError ''ServerTimeout''), None]) =
     ((Return (None, Some (StatusError ''ServerTimeout'')),
       Some (bucket_b1\<lparr>ob_Status_Phase := ''Bound''\<rparr>)),
      ([ObjectBuckets_UpdateStatus_call (Some (bucket_b1\<lparr>ob_Status_Phase := ''Bound''\<rparr>))],
       [None]))"
  by (simp add: updateObjectBucketClaimPhase_one_attempt updateObjectBucketPhase_one_attempt
        traced_versioned_simps logged_apply scripted_versioned_def claim_c1_def)

text \<open>
  C9: the phase updaters write the new phase into the object of their caller before they
  contact the store, and do not take it back. Whatever the store answers, and so also
  when the update fails, the caller's object afterwards is the object given with the new
  phase; and the object the store is called with already carries the new phase.
\<close>

theorem phase_is_written_to_the_callers_object:
  "snd (fst (updateObjectBucketClaimPhase c (Some obc) phase ticks s)) =
     Some (obc\<lparr>obc_Status_Phase := phase\<rparr>) \<and>
   snd (fst (updateObjectBucketPhase c (Some ob) phase ticks s)) =
     Some (ob\<lparr>ob_Status_Phase := phase\<rparr>) \<and>
   fst (snd (updateObjectBucketClaimPhase (traced_versioned c) (Some obc) phase ticks ([], s))) =
     [ObjectBucketClaims_UpdateStatus_call (Namespace (obc_ObjectMeta obc))
        (Some (obc\<lparr>obc_Status_Phase := phase\<rparr>))] \<and>
   fst (snd (updateObjectBucketPhase (traced_versioned c) (Some ob) phase ticks ([], s))) =
     [ObjectBuckets_UpdateStatus_call (Some (ob\<lparr>ob_Status_Phase := phase\<rparr>))]"
  by (simp add: updateObjectBucketClaimPhase_one_attempt updateObjectBucketPhase_one_attempt
        traced_versioned_simps logged_apply split: prod.splits)

text \<open>C9 at a store that rejects the update with a conflict: the call returns the
  error, and the claim of the caller, which was pending, now reads bound.\<close>

theorem phase_is_written_to_the_callers_object_witness:
  "updateObjectBucketClaimPhase (scripted_versioned None) (Some claim_c1) ''Bound'' 9
     [Some (StatusError ''Conflict'')] =
     ((Return (None, Some (StatusError ''Conflict'')),
       Some (claim_c1\<lparr>obc_Status_Phase := ''Bound''\<rparr>)), []) \<and>
   obc_Status_Phase claim_c1 = ''Pending''"
  using phase_is_written_to_the_callers_object
    [of "scripted_versioned None" claim_c1 "''Bound''" 9 "[Some (StatusError ''Conflict'')]"]
  by (simp add: updateObjectBucketClaimPhase_one_attempt scripted_versioned_def claim_c1_def)

section \<open>\<open>path.Join\<close> on plain elements\<close>

text \<open>An element of plain text is copied to the buffer, after a slash when the buffer is
  not empty; an empty element leaves no trace. So \<open>path.Join\<close> of elements that are empty
  or plain is the non-empty ones joined by slashes.\<close>

lemma segment_char_not_slash: "segment_char c \<Longrightarrow> c \<noteq> CHR ''/''"
  by (auto simp: segment_char_def alnum_def between_def byte_def)

lemma takeWhile_segment:
  "list_all segment_char cs \<Longrightarrow> at_element_end rest \<Longrightarrow>
   takeWhile (\<lambda>x. x \<noteq> CHR ''/'') (cs @ rest) = cs \<and>
   dropWhile (\<lambda>x. x \<noteq> CHR ''/'') (cs @ rest) = rest"
  by (induction cs)
     (auto simp: at_element_end_def segment_char_not_slash split: list.splits)

lemma at_element_end_append:
  "list_all segment_char cs \<Longrightarrow> cs \<noteq> [] \<Longrightarrow> \<not> at_element_end (cs @ rest)"
  by (cases cs) (auto simp: at_element_end_def segment_char_not_slash)

lemma Clean_loop_slash: "Clean_loop rooted (CHR ''/'' # rest) out dotdot = Clean_loop rooted rest out dotdot"
  by (simp add: Clean_loop.simps)

lemma Clean_loop_segment:
  assumes "plain_segment e" and "at_element_end rest"
  shows "Clean_loop False (e @ rest) out dotdot =
           Clean_loop False rest ((if out = [] then [] else out @ ''/'') @ e) dotdot"
proof -
  from assms(1) obtain c cs where e: "e = c # cs" and c: "segment_char c" and cs: "list_all segment_char cs"
    by (cases e) (auto simp: plain_segment_def)
  have c_slash: "c \<noteq> CHR ''/''" using c by (rule segment_char_not_slash)
  have dot: "\<not> (c = CHR ''.'' \<and> at_element_end (cs @ rest))"
  proof
    assume a: "c = CHR ''.'' \<and> at_element_end (cs @ rest)"
    with assms(1) e have "cs \<noteq> []" by (auto simp: plain_segment_def)
    with cs a show False using at_element_end_append by blast
  qed
  have dotdot: "\<not> (c = CHR ''.'' \<and> take 1 (cs @ rest) = ''.'' \<and> at_element_end (drop 1 (cs @ rest)))"
  proof
    assume a: "c = CHR ''.'' \<and> take 1 (cs @ rest) = ''.'' \<and> at_element_end (drop 1 (cs @ rest))"
    with assms(1) e have ne: "cs \<noteq> []" by (auto simp: plain_segment_def)
    then obtain d ds where ds: "cs = d # ds" by (cases cs) auto
    with a have d: "d = CHR ''.''" by simp
    with assms(1) e ds a have "ds \<noteq> []" by (auto simp: plain_segment_def)
    moreover from cs ds have "list_all segment_char ds" by simp
    ultimately have "\<not> at_element_end (ds @ rest)" by (rule at_element_end_append [rotated])
    with a ds show False by simp
  qed
  have "Clean_loop False (c # cs @ rest) out dotdot =
          (let out' = (if False \<and> length out \<noteq> 1 \<or> \<not> False \<and> length out \<noteq> 0
                       then out @ ''/'' else out)
           in Clean_loop False (dropWhile (\<lambda>x. x \<noteq> CHR ''/'') (cs @ rest))
                (out' @ c # takeWhile (\<lambda>x. x \<noteq> CHR ''/'') (cs @ rest)) dotdot)"
    by (subst Clean_loop.simps(2)) (simp only: c_slash dot dotdot if_False)
  with takeWhile_segment [OF cs assms(2)] show ?thesis
    unfolding e by (simp add: Let_def)
qed

lemma at_element_end_Join: "at_element_end (CHR ''/'' # s)"
  by (simp add: at_element_end_def)

lemma Clean_loop_Join:
  "list_all (\<lambda>e. e = [] \<or> plain_segment e) es \<Longrightarrow>
   Clean_loop False (strings_Join es) out dotdot = joined out es"
proof (induction es arbitrary: out rule: strings_Join.induct)
  case 1
  then show ?case by (simp add: Clean_loop.simps)
next
  case (2 e)
  then show ?case
    using Clean_loop_segment [of e "[]" out dotdot]
    by (auto simp: Clean_loop.simps at_element_end_def)
next
  case (3 e v va)
  then show ?case
    using Clean_loop_segment [of e "CHR ''/'' # strings_Join (v # va)" out dotdot]
    by (auto simp: Clean_loop_slash at_element_end_def)
qed

lemma joined_nonempty: "out \<noteq> [] \<Longrightarrow> joined out es \<noteq> []"
  by (induction es arbitrary: out) auto

lemma joined_filter:
  "joined out es = (if filter (\<lambda>e. e \<noteq> []) es = [] then out
                    else (if out = [] then [] else out @ ''/'') @ strings_Join (filter (\<lambda>e. e \<noteq> []) es))"
proof (induction es arbitrary: out)
  case Nil
  then show ?case by simp
next
  case (Cons e es)
  then show ?case
    by (cases "filter (\<lambda>e. e \<noteq> []) es") auto
qed

lemma plain_segment_hd: "plain_segment e \<Longrightarrow> hd e \<noteq> CHR ''/''"
  by (cases e) (auto simp: plain_segment_def segment_char_not_slash)

lemma path_Join_plain:
  "list_all (\<lambda>e. e = [] \<or> plain_segment e) es \<Longrightarrow>
   path_Join es = strings_Join (filter (\<lambda>e. e \<noteq> []) es)"
proof (induction es)
  case Nil
  then show ?case by (simp add: path_Join.simps)
next
  case (Cons e es)
  show ?case
  proof (cases "e = []")
    case True
    with Cons show ?thesis by (simp add: path_Join.simps)
  next
    case False
    with Cons.prems have pe: "plain_segment e" by simp
    have ne: "strings_Join (e # es) \<noteq> []" using False by (cases es) auto
    have hd: "hd (strings_Join (e # es)) \<noteq> CHR ''/''"
      using plain_segment_hd [OF pe] False by (cases es) auto
    have "Clean (strings_Join (e # es)) = joined [] (e # es)"
      using ne hd Clean_loop_Join [OF Cons.prems, of "[]" 0] joined_nonempty [of e es] False
      by (simp add: Clean_def Let_def)
    with False show ?thesis by (simp add: joined_filter path_Join.simps)
  qed
qed

section \<open>\<open>net/url\<close> on plain text\<close>

text \<open>A URL of the scheme http or https with a host of plain text, an optional port of
  digits and a path of plain segments has no byte that the parser cuts at, rejects or
  escapes: \<open>Parse\<close> accepts it and \<open>String\<close> prints it back as it was.\<close>

lemma split_none: "sep \<notin> set s \<Longrightarrow> split s sep cutc = (s, [])"
proof -
  assume "sep \<notin> set s"
  then have tw: "takeWhile (\<lambda>c. c \<noteq> sep) s = s"
    and dw: "dropWhile (\<lambda>c. c \<noteq> sep) s = []"
    by (auto simp: takeWhile_eq_all_conv dropWhile_eq_Nil_conv)
  show ?thesis unfolding split_def tw dw by simp
qed

lemma takeWhile_until:
  "sep \<notin> set a \<Longrightarrow>
   takeWhile (\<lambda>c. c \<noteq> sep) (a @ sep # s) = a \<and>
   dropWhile (\<lambda>c. c \<noteq> sep) (a @ sep # s) = sep # s"
  by (induction a) auto

lemma split_first:
  "sep \<notin> set a \<Longrightarrow> split (a @ sep # s) sep False = (a, sep # s)"
  by (simp add: split_def takeWhile_until)

lemma LastIndex_none: "c \<notin> set s \<Longrightarrow> LastIndex s c = None"
  by (simp add: LastIndex_def)

lemma LastIndex_last: "c \<notin> set ds \<Longrightarrow> LastIndex (h @ c # ds) c = Some (length h)"
proof -
  assume "c \<notin> set ds"
  then have "takeWhile (\<lambda>x. x \<noteq> c) (rev ds @ c # rev h) = rev ds"
    using takeWhile_until [of c "rev ds" "rev h"] by simp
  then show ?thesis by (simp add: LastIndex_def)
qed

lemma unescape_plain:
  "list_all (\<lambda>c. c \<noteq> CHR ''%'' \<and> c \<noteq> CHR ''+'' \<and>
                 \<not> ((mode = encodeHost \<or> mode = encodeZone) \<and> byte c < 0x80 \<and>
                    shouldEscape c encodeHost)) s \<Longrightarrow>
   unescape s mode = Inr s"
  by (induction s) auto

lemma escape_plain:
  "list_all (\<lambda>c. \<not> shouldEscape c mode \<and> c \<noteq> CHR '' '') s \<Longrightarrow> escape s mode = s"
  by (induction s) (auto simp: escape_def)

lemma shouldEscape_alnum: "alnum c \<Longrightarrow> \<not> shouldEscape c mode"
  by (simp add: shouldEscape_def alnum_def)

lemma alnum_not_ctl: "alnum c \<Longrightarrow> \<not> (byte c < 0x20 \<or> byte c = 0x7f)"
  by (auto simp: alnum_def between_def byte_def)

lemma non_alnum:
  "\<not> alnum CHR ''%''" "\<not> alnum CHR ''+''" "\<not> alnum CHR ''#''" "\<not> alnum CHR ''?''"
  "\<not> alnum CHR ''/''" "\<not> alnum CHR ''@''" "\<not> alnum CHR ''[''" "\<not> alnum CHR '' ''"
  "\<not> alnum CHR '':''" "\<not> alnum CHR ''*''"
  by (simp_all add: alnum_def between_def byte_def)

lemma alnum_neq: "alnum c \<Longrightarrow> \<not> alnum d \<Longrightarrow> c \<noteq> d"
  by auto

lemma alnum_authority_safe: "alnum c \<Longrightarrow> authority_safe c"
  unfolding authority_safe_def
  using shouldEscape_alnum [of c encodeHost] alnum_not_ctl [of c] non_alnum
  by (auto dest: alnum_neq)

lemma alnum_path_safe: "alnum c \<Longrightarrow> path_safe c"
  unfolding path_safe_def
  using shouldEscape_alnum [of c encodePath] alnum_not_ctl [of c] non_alnum
  by (auto dest: alnum_neq)

lemma literal_authority_safe:
  "authority_safe CHR ''-''" "authority_safe CHR ''.''" "authority_safe CHR '':''"
  by (simp_all add: authority_safe_def shouldEscape_def between_def byte_def)

lemma literal_path_safe:
  "path_safe CHR ''-''" "path_safe CHR ''_''" "path_safe CHR ''.''" "path_safe CHR ''~''"
  "path_safe CHR ''/''"
  by (simp_all add: path_safe_def shouldEscape_def between_def byte_def)

lemma authority_char_safe: "authority_char c \<Longrightarrow> authority_safe c"
  unfolding authority_char_def host_char_def
  by (elim disjE) (simp_all add: alnum_authority_safe literal_authority_safe)

lemma path_char_safe: "path_char c \<Longrightarrow> path_safe c"
  unfolding path_char_def segment_char_def
  by (elim disjE) (simp_all add: alnum_path_safe literal_path_safe)

lemma getscheme_http: "getscheme (''http'' @ CHR '':'' # rest) = Inr (''http'', rest)"
  by (simp add: getscheme_def between_def byte_def)

lemma getscheme_https: "getscheme (''https'' @ CHR '':'' # rest) = Inr (''https'', rest)"
  by (simp add: getscheme_def between_def byte_def)

lemma take1_neq: "list_all (\<lambda>c. c \<noteq> x) s \<Longrightarrow> take 1 s \<noteq> [x]"
  by (cases s) auto

lemma digit_authority_safe: "between CHR ''0'' b CHR ''9'' \<Longrightarrow> authority_safe b"
  by (rule alnum_authority_safe) (simp add: alnum_def)

lemma digit_not_colon: "between CHR ''0'' b CHR ''9'' \<Longrightarrow> b \<noteq> CHR '':''"
  by (auto simp: between_def byte_def)

lemma host_char_not_colon: "host_char c \<Longrightarrow> c \<noteq> CHR '':''"
  using non_alnum by (auto simp: host_char_def)

lemma host_char_safe: "host_char c \<Longrightarrow> authority_safe c"
  by (rule authority_char_safe) (simp add: authority_char_def)

lemma port_segment_safe: "port_segment P \<Longrightarrow> list_all authority_safe P"
  by (cases P)
     (auto simp: port_segment_def literal_authority_safe list_all_iff digit_authority_safe)

lemma parseHost_plain:
  assumes H: "list_all host_char H" and P: "port_segment P"
  shows "parseHost (H @ P) = Inr (H @ P)"
proof -
  have safe: "list_all authority_safe (H @ P)"
    using H port_segment_safe [OF P] by (auto simp: list_all_iff host_char_safe)
  then have br: "take 1 (H @ P) \<noteq> ''[''"
    by (intro take1_neq) (auto simp: list_all_iff authority_safe_def)
  have un: "unescape (H @ P) encodeHost = Inr (H @ P)"
    using safe by (intro unescape_plain) (auto simp: list_all_iff authority_safe_def)
  have colon_H: "CHR '':'' \<notin> set H"
    using H host_char_not_colon by (auto simp: list_all_iff)
  show ?thesis
  proof (cases P)
    case Nil
    with colon_H have "LastIndex (H @ P) CHR '':'' = None" by (simp add: LastIndex_none)
    with br un show ?thesis by (simp add: parseHost_def)
  next
    case (Cons c ds)
    with P have c: "c = CHR '':''" and ds: "list_all (\<lambda>b. between CHR ''0'' b CHR ''9'') ds"
      by (simp_all add: port_segment_def)
    from ds have "CHR '':'' \<notin> set ds" using digit_not_colon by (auto simp: list_all_iff)
    then have li: "LastIndex (H @ P) CHR '':'' = Some (length H)"
      unfolding Cons c by (rule LastIndex_last)
    have "validOptionalPort P" using Cons c ds by (simp add: validOptionalPort_def)
    with br un li show ?thesis by (simp add: parseHost_def)
  qed
qed

lemma parseAuthority_plain:
  assumes H: "list_all host_char H" and P: "port_segment P"
  shows "parseAuthority (H @ P) = Inr (None, H @ P)"
proof -
  have "list_all authority_safe (H @ P)"
    using H port_segment_safe [OF P] by (auto simp: list_all_iff host_char_safe)
  then have "CHR ''@'' \<notin> set (H @ P)"
    by (auto simp: list_all_iff authority_safe_def)
  then have "LastIndex (H @ P) CHR ''@'' = None" by (rule LastIndex_none)
  with parseHost_plain [OF H P] show ?thesis by (simp add: parseAuthority_def)
qed

lemma setPath_plain:
  assumes p: "list_all path_char p"
  shows "setPath u (CHR ''/'' # p) = Inr (u\<lparr>Path := CHR ''/'' # p, RawPath := []\<rparr>)"
proof -
  have safe: "list_all path_safe (CHR ''/'' # p)"
    using p by (auto simp: list_all_iff path_char_safe literal_path_safe)
  have un: "unescape (CHR ''/'' # p) encodePath = Inr (CHR ''/'' # p)"
    using safe by (intro unescape_plain) (auto simp: list_all_iff path_safe_def)
  have es: "escape (CHR ''/'' # p) encodePath = CHR ''/'' # p"
    using safe by (intro escape_plain) (auto simp: list_all_iff path_safe_def)
  show ?thesis by (simp only: setPath_def un sum.case es if_True simp_thms)
qed

lemma stringContainsCTLByte_append:
  "stringContainsCTLByte (a @ b) = (stringContainsCTLByte a \<or> stringContainsCTLByte b)"
  by (simp add: stringContainsCTLByte_def)

lemma no_CTL: "list_all (\<lambda>c. \<not> (byte c < 0x20 \<or> byte c = 0x7f)) s \<Longrightarrow> \<not> stringContainsCTLByte s"
  by (induction s) (auto simp: stringContainsCTLByte_def)

lemma count_list_none: "x \<notin> set s \<Longrightarrow> count_list s x = 0"
  by (induction s) auto

lemma parse_plain:
  assumes S: "S = ''http'' \<or> S = ''https''"
    and H: "list_all host_char H" and P: "port_segment P" and p: "list_all path_char p"
  shows "parse (S @ ''://'' @ H @ P @ ''/'' @ p) False =
           Inr (URL_zero\<lparr>Scheme := S, Host := H @ P, Path := ''/'' @ p\<rparr>)"
proof -
  let ?A = "H @ P"
  let ?rest = "''//'' @ ?A @ ''/'' @ p"
  let ?raw = "S @ ''://'' @ H @ P @ ''/'' @ p"
  have safeA: "list_all authority_safe ?A"
    using H port_segment_safe [OF P] by (auto simp: list_all_iff host_char_safe)
  have safep: "list_all path_safe p"
    using p by (auto simp: list_all_iff path_char_safe)
  have ctl: "\<not> stringContainsCTLByte ?raw"
  proof -
    have "\<not> stringContainsCTLByte S" using S by (auto simp: stringContainsCTLByte_def byte_def)
    moreover have "\<not> stringContainsCTLByte ''://''" by (simp add: stringContainsCTLByte_def byte_def)
    moreover have "\<not> stringContainsCTLByte ?A"
      using safeA by (intro no_CTL) (auto simp: list_all_iff authority_safe_def)
    moreover have "\<not> stringContainsCTLByte ''/''" by (simp add: stringContainsCTLByte_def byte_def)
    moreover have "\<not> stringContainsCTLByte p"
      using safep by (intro no_CTL) (auto simp: list_all_iff path_safe_def)
    ultimately show ?thesis
      using stringContainsCTLByte_append [of S "''://'' @ H @ P @ ''/'' @ p"]
        stringContainsCTLByte_append [of "''://''" "(H @ P) @ ''/'' @ p"]
        stringContainsCTLByte_append [of "H @ P" "''/'' @ p"]
        stringContainsCTLByte_append [of "''/''" p]
      by simp
  qed
  have star: "?raw \<noteq> ''*''" "?raw \<noteq> []" using S by auto
  have gs: "getscheme ?raw = Inr (S, ?rest)"
    using S getscheme_http [of ?rest] getscheme_https [of ?rest] by auto
  have lower: "map ascii_lower S = S" using S by (auto simp: ascii_lower_def)
  have q: "CHR ''?'' \<notin> set ?rest"
    using safeA safep by (auto simp: list_all_iff authority_safe_def path_safe_def)
  have cnt: "count_list ?rest CHR ''?'' = 0" using q by (rule count_list_none)
  have sp: "split ?rest CHR ''?'' True = (?rest, [])" using q by (rule split_none)
  have slashA: "CHR ''/'' \<notin> set ?A"
    using safeA by (auto simp: list_all_iff authority_safe_def)
  have sp2: "split (H @ P @ CHR ''/'' # p) CHR ''/'' False = (H @ P, CHR ''/'' # p)"
    using split_first [OF slashA, of p] by simp
  have t1: "take 1 ?rest = ''/''" "take 2 ?rest = ''//''" by simp_all
  have Sne: "S \<noteq> []" using S by auto
  show ?thesis
    unfolding parse_def
    apply (simp only: ctl star if_False simp_thms gs sum.case prod.case Let_def lower cnt sp
        fst_conv snd_conv t1 sp2 parseAuthority_plain [OF H P] setPath_plain [OF p])
    apply (simp add: Sne sp2 parseAuthority_plain [OF H P] setPath_plain [OF p])
    apply (simp add: URL_zero_def)
    done
qed

lemma Parse_plain:
  assumes S: "S = ''http'' \<or> S = ''https''"
    and H: "list_all host_char H" and P: "port_segment P" and p: "list_all path_char p"
  shows "Parse (S @ ''://'' @ H @ P @ ''/'' @ p) =
           Inr (URL_zero\<lparr>Scheme := S, Host := H @ P, Path := ''/'' @ p\<rparr>)"
proof -
  have "list_all authority_safe (H @ P)"
    using H port_segment_safe [OF P] by (auto simp: list_all_iff host_char_safe)
  then have 1: "CHR ''#'' \<notin> set (H @ P)"
    by (auto simp: list_all_iff authority_safe_def)
  have "list_all path_safe p"
    using p by (auto simp: list_all_iff path_char_safe)
  then have 2: "CHR ''#'' \<notin> set p"
    by (auto simp: list_all_iff path_safe_def)
  have 3: "CHR ''#'' \<notin> set S" using S by auto
  have "CHR ''#'' \<notin> set (S @ ''://'' @ H @ P @ ''/'' @ p)"
    using 1 2 3 by simp
  then have sp: "split (S @ ''://'' @ H @ P @ ''/'' @ p) CHR ''#'' True =
               (S @ ''://'' @ H @ P @ ''/'' @ p, [])"
    by (rule split_none)
  show ?thesis
    unfolding Parse_def sp
    by (simp only: prod.case parse_plain [OF S H P p] sum.case if_True simp_thms)
qed

lemma String_plain:
  assumes S: "S = ''http'' \<or> S = ''https''"
    and H: "list_all host_char H" and P: "port_segment P" and p: "list_all path_char p"
  shows "String (URL_zero\<lparr>Scheme := S, Host := H @ P, Path := ''/'' @ p\<rparr>) =
           S @ ''://'' @ H @ P @ ''/'' @ p"
proof -
  have "list_all authority_safe (H @ P)"
    using H port_segment_safe [OF P] by (auto simp: list_all_iff host_char_safe)
  then have eh: "escape (H @ P) encodeHost = H @ P"
    by (intro escape_plain) (auto simp: list_all_iff authority_safe_def)
  have "list_all path_safe (CHR ''/'' # p)"
    using p by (auto simp: list_all_iff path_char_safe literal_path_safe)
  then have ep: "escape (CHR ''/'' # p) encodePath = CHR ''/'' # p"
    by (intro escape_plain) (auto simp: list_all_iff path_safe_def)
  have Sne: "S \<noteq> []" using S by auto
  have path: "EscapedPath (URL_zero\<lparr>Scheme := S, Host := H @ P, Path := ''/'' @ p\<rparr>) = CHR ''/'' # p"
    by (simp add: EscapedPath_def URL_zero_def ep)
  show ?thesis
    unfolding String_def path
    by (simp add: URL_zero_def Let_def Sne eh)
qed

lemma digits_decimal: "list_all (\<lambda>b. between CHR ''0'' b CHR ''9'') (digits n)"
proof (induction n rule: digits.induct)
  case (1 n)
  have d: "k < 10 \<Longrightarrow> between CHR ''0'' (''0123456789'' ! k) CHR ''9''" for k :: nat
  proof -
    assume "k < 10"
    then consider "k = 0" | "k = 1" | "k = 2" | "k = 3" | "k = 4" | "k = 5" | "k = 6"
      | "k = 7" | "k = 8" | "k = 9"
      by atomize_elim arith
    then show ?thesis by cases (simp_all add: between_def byte_def)
  qed
  show ?case
  proof (cases "n < 10")
    case True
    then show ?thesis by (subst digits.simps) (simp add: d)
  next
    case False
    then have "list_all (\<lambda>b. between CHR ''0'' b CHR ''9'') (digits (n div 10))"
      using 1 by simp
    with False show ?thesis by (subst digits.simps) (simp add: d)
  qed
qed

lemma port_segment_Itoa:
  "port_segment (if port > 0 then '':'' @ Itoa port else [])"
  using digits_decimal [of "nat port"] by (simp add: port_segment_def Itoa_def)

lemma strings_Join_path_chars:
  "list_all (list_all segment_char) es \<Longrightarrow> list_all path_char (strings_Join es)"
  by (induction es rule: strings_Join.induct) (auto simp: list_all_iff path_char_def)

lemma plain_path_chars:
  assumes "list_all (\<lambda>e. e = [] \<or> plain_segment e) es"
  shows "list_all path_char (strings_Join (filter (\<lambda>e. e \<noteq> []) es))"
  using assms
  by (intro strings_Join_path_chars) (auto simp: list_all_iff plain_segment_def)

section \<open>The ConfigMap with its URL\<close>

text \<open>\<open>NewBucketConfigMap\<close> in terms of the text it hands to the parser.\<close>

lemma NewBucketConfigMap_unfold:
  "NewBucketConfigMap (Some ep) (Some obc) =
     (case Parse (bucketURL_text (Spec_SSL obc) ep) of
        Inl err \<Rightarrow>
          Inl (Errorf ''malformed bucket url %q: %v''
                 [path_Join [Region ep, SubRegion ep, BucketName ep]] [err])
      | Inr bucketURL \<Rightarrow>
          Inr \<lparr>cm_ObjectMeta =
                 \<lparr>Name = Name (obc_ObjectMeta obc), Namespace = Namespace (obc_ObjectMeta obc),
                  UID = [], Finalizers = [], OwnerReferences = []\<rparr>,
               cm_Data =
                 [util_BucketName \<mapsto> Spec_BucketName obc,
                  util_BucketHost \<mapsto> BucketHost ep,
                  util_BucketPort \<mapsto> Itoa (BucketPort ep),
                  util_BucketSSL \<mapsto> FormatBool (SSL ep),
                  util_BucketRegion \<mapsto> Region ep,
                  util_BucketSubRegion \<mapsto> SubRegion ep,
                  util_BucketURL \<mapsto> String bucketURL]\<rparr>)"
  by (cases "Spec_SSL obc"; cases "BucketPort ep > 0")
     (simp_all add: NewBucketConfigMap_def bucketURL_text_def Let_def del: fun_upd_apply)








text \<open>On plain text \<open>NewBucketConfigMap\<close> succeeds, and this is the ConfigMap it
  returns.\<close>

lemma NewBucketConfigMap_plain:
  assumes host: "list_all host_char (BucketHost ep)"
    and region: "segment_ok (Region ep)"
    and subregion: "segment_ok (SubRegion ep)"
    and name: "segment_ok (BucketName ep)"
  shows "NewBucketConfigMap (Some ep) (Some obc) =
          Inr \<lparr>cm_ObjectMeta =
                 \<lparr>Name = Name (obc_ObjectMeta obc), Namespace = Namespace (obc_ObjectMeta obc),
                  UID = [], Finalizers = [], OwnerReferences = []\<rparr>,
               cm_Data =
                 [util_BucketName \<mapsto> Spec_BucketName obc,
                  util_BucketHost \<mapsto> BucketHost ep,
                  util_BucketPort \<mapsto> Itoa (BucketPort ep),
                  util_BucketSSL \<mapsto> FormatBool (SSL ep),
                  util_BucketRegion \<mapsto> Region ep,
                  util_BucketSubRegion \<mapsto> SubRegion ep,
                  util_BucketURL \<mapsto> BucketURL_joined ep obc]\<rparr>"
proof -
  define S where "S = (if Spec_SSL obc then ''https'' else ''http'')"
  define P where "P = (if BucketPort ep > 0 then '':'' @ Itoa (BucketPort ep) else [])"
  define p where
    "p = strings_Join (filter (\<lambda>s. s \<noteq> []) [Region ep, SubRegion ep, BucketName ep])"
  define u where "u = URL_zero\<lparr>Scheme := S, Host := BucketHost ep @ P, Path := ''/'' @ p\<rparr>"
  have es: "list_all (\<lambda>e. e = [] \<or> plain_segment e) [Region ep, SubRegion ep, BucketName ep]"
    using region subregion name by (simp add: segment_ok_def)
  have pj: "path_Join [Region ep, SubRegion ep, BucketName ep] = p"
    unfolding p_def using es by (rule path_Join_plain)
  have S: "S = ''http'' \<or> S = ''https''" by (simp add: S_def)
  have P: "port_segment P" unfolding P_def by (rule port_segment_Itoa)
  have pc: "list_all path_char p" unfolding p_def using es by (rule plain_path_chars)
  have parse: "Parse (S @ ''://'' @ BucketHost ep @ P @ ''/'' @ p) = Inr u"
    unfolding u_def using S host P pc by (rule Parse_plain)
  have str: "String u = BucketURL_joined ep obc"
    unfolding u_def BucketURL_joined_def S_def [symmetric] P_def [symmetric] p_def [symmetric]
    using S host P pc by (rule String_plain)
  have raw: "(if BucketPort ep > 0
              then (if Spec_SSL obc then ''https://'' @ BucketHost ep
                    else ''http://'' @ BucketHost ep) @ '':'' @ Itoa (BucketPort ep)
              else (if Spec_SSL obc then ''https://'' @ BucketHost ep
                    else ''http://'' @ BucketHost ep)) @ ''/'' @ p =
             S @ ''://'' @ BucketHost ep @ P @ ''/'' @ p"
    by (simp add: S_def P_def)
  show ?thesis
    by (simp only: NewBucketConfigMap_def prod.case option.case Let_def pj raw parse sum.case str)
qed

lemma data_lookup:
  "[util_BucketName \<mapsto> a, util_BucketHost \<mapsto> b, util_BucketPort \<mapsto> c, util_BucketSSL \<mapsto> d,
    util_BucketRegion \<mapsto> e, util_BucketSubRegion \<mapsto> f, util_BucketURL \<mapsto> g] util_BucketURL = Some g"
  "[util_BucketName \<mapsto> a, util_BucketHost \<mapsto> b, util_BucketPort \<mapsto> c, util_BucketSSL \<mapsto> d,
    util_BucketRegion \<mapsto> e, util_BucketSubRegion \<mapsto> f, util_BucketURL \<mapsto> g] util_BucketSSL = Some d"
  "[util_BucketName \<mapsto> a, util_BucketHost \<mapsto> b, util_BucketPort \<mapsto> c, util_BucketSSL \<mapsto> d,
    util_BucketRegion \<mapsto> e, util_BucketSubRegion \<mapsto> f, util_BucketURL \<mapsto> g] util_BucketName = Some a"
  by (simp_all add: util_BucketName_def util_BucketHost_def util_BucketPort_def util_BucketSSL_def
        util_BucketRegion_def util_BucketSubRegion_def util_BucketURL_def)

lemma BucketURL_joined_all:
  "Region ep \<noteq> [] \<Longrightarrow> SubRegion ep \<noteq> [] \<Longrightarrow> BucketName ep \<noteq> [] \<Longrightarrow>
   BucketURL_joined ep obc = BucketURL_spec ep obc"
  by (simp add: BucketURL_joined_def BucketURL_spec_def)

lemma bucketURL_text_plain:
  assumes "segment_ok (Region ep)" and "segment_ok (SubRegion ep)" and "segment_ok (BucketName ep)"
  shows "bucketURL_text (Spec_SSL obc) ep = BucketURL_joined ep obc"
proof -
  have "list_all (\<lambda>e. e = [] \<or> plain_segment e) [Region ep, SubRegion ep, BucketName ep]"
    using assms by (simp add: segment_ok_def)
  then have "path_Join [Region ep, SubRegion ep, BucketName ep] =
               strings_Join (filter (\<lambda>e. e \<noteq> []) [Region ep, SubRegion ep, BucketName ep])"
    by (rule path_Join_plain)
  then show ?thesis by (simp only: bucketURL_text_def BucketURL_joined_def)
qed

text \<open>
  C2, as stated, fails. With an empty region (and the rest as in the scenario of the
  spec) the URL in the ConfigMap is \<open>https://s3.example.com/east/b1\<close>, where
  \<open>scheme://host[:port]/region/subregion/bucketName\<close> reads
  \<open>https://s3.example.com//east/b1\<close>: \<open>path.Join\<close> leaves an empty part out, together
  with its slash. With the bucket name \<open>my bucket\<close> the URL ends in \<open>my%20bucket\<close>: the URL
  is printed escaped. With the host \<open>s3 example.com\<close> there is no URL: the parser rejects
  the host and the synthesis fails.
\<close>

theorem NewBucketConfigMap_URL_is_not_the_template:
  "BucketURL_of (endpoint_e1\<lparr>Region := []\<rparr>) claim_c1 = Inr (Some ''https://s3.example.com/east/b1'') \<and>
   BucketURL_spec (endpoint_e1\<lparr>Region := []\<rparr>) claim_c1 = ''https://s3.example.com//east/b1'' \<and>
   BucketURL_of (endpoint_e1\<lparr>BucketName := ''my bucket''\<rparr>) claim_c1 =
     Inr (Some ''https://s3.example.com/us/east/my%20bucket'') \<and>
   BucketURL_of (endpoint_e1\<lparr>BucketHost := ''s3 example.com''\<rparr>) claim_c1 =
     Inl (Errorf ''malformed bucket url %q: %v'' [''us/east/b1'']
            [UrlError ''parse'' ''https://s3 example.com/us/east/b1'' (InvalidHostError '' '')])"
  by code_simp

text \<open>
  C2, amended: for every non-nil Claim and Endpoint, ConfigMap synthesis hands the URL
  parser the text \<open>scheme://host[:port]/\<close> followed by \<open>path.Join\<close> of region, subregion
  and bucket name, where the scheme is https exactly when the claim requests SSL and
  the port segment is left out when the port is not positive; it fails with the
  malformed-URL error when the parser rejects the text, and else \<open>BUCKET_URL\<close> is the
  parsed URL printed. When the host is plain text and region, subregion and bucket name
  are each empty or a plain segment, the synthesis succeeds and \<open>BUCKET_URL\<close> is that
  text with the empty parts left out: \<open>scheme://host[:port]/\<close> followed by the non-empty
  ones of region, subregion and bucket name, joined by slashes, which is
  \<open>scheme://host[:port]/region/subregion/bucketName\<close> when none of the three is empty.
\<close>

theorem NewBucketConfigMap_URL:
  "(case Parse (bucketURL_text (Spec_SSL obc) ep) of
      Inl err \<Rightarrow>
        NewBucketConfigMap (Some ep) (Some obc) =
          Inl (Errorf ''malformed bucket url %q: %v''
                 [path_Join [Region ep, SubRegion ep, BucketName ep]] [err])
    | Inr u \<Rightarrow>
        (\<exists>cm. NewBucketConfigMap (Some ep) (Some obc) = Inr cm \<and>
              cm_Data cm util_BucketURL = Some (String u))) \<and>
   (list_all host_char (BucketHost ep) \<and> segment_ok (Region ep) \<and>
    segment_ok (SubRegion ep) \<and> segment_ok (BucketName ep) \<longrightarrow>
      (\<exists>cm. NewBucketConfigMap (Some ep) (Some obc) = Inr cm \<and>
            cm_Data cm util_BucketURL = Some (BucketURL_joined ep obc) \<and>
            (Region ep \<noteq> [] \<and> SubRegion ep \<noteq> [] \<and> BucketName ep \<noteq> [] \<longrightarrow>
               cm_Data cm util_BucketURL = Some (BucketURL_spec ep obc))))"
proof
  show "case Parse (bucketURL_text (Spec_SSL obc) ep) of
      Inl err \<Rightarrow>
        NewBucketConfigMap (Some ep) (Some obc) =
          Inl (Errorf ''malformed bucket url %q: %v''
                 [path_Join [Region ep, SubRegion ep, BucketName ep]] [err])
    | Inr u \<Rightarrow>
        (\<exists>cm. NewBucketConfigMap (Some ep) (Some obc) = Inr cm \<and>
              cm_Data cm util_BucketURL = Some (String u))"
    unfolding NewBucketConfigMap_unfold
    by (simp add: data_lookup del: fun_upd_apply split: sum.splits)
next
  show "list_all host_char (BucketHost ep) \<and> segment_ok (Region ep) \<and>
    segment_ok (SubRegion ep) \<and> segment_ok (BucketName ep) \<longrightarrow>
      (\<exists>cm. NewBucketConfigMap (Some ep) (Some obc) = Inr cm \<and>
            cm_Data cm util_BucketURL = Some (BucketURL_joined ep obc) \<and>
            (Region ep \<noteq> [] \<and> SubRegion ep \<noteq> [] \<and> BucketName ep \<noteq> [] \<longrightarrow>
               cm_Data cm util_BucketURL = Some (BucketURL_spec ep obc)))"
  proof
    assume a: "list_all host_char (BucketHost ep) \<and> segment_ok (Region ep) \<and>
      segment_ok (SubRegion ep) \<and> segment_ok (BucketName ep)"
    then have "NewBucketConfigMap (Some ep) (Some obc) =
          Inr \<lparr>cm_ObjectMeta =
                 \<lparr>Name = Name (obc_ObjectMeta obc), Namespace = Namespace (obc_ObjectMeta obc),
                  UID = [], Finalizers = [], OwnerReferences = []\<rparr>,
               cm_Data =
                 [util_BucketName \<mapsto> Spec_BucketName obc,
                  util_BucketHost \<mapsto> BucketHost ep,
                  util_BucketPort \<mapsto> Itoa (BucketPort ep),
                  util_BucketSSL \<mapsto> FormatBool (SSL ep),
                  util_BucketRegion \<mapsto> Region ep,
                  util_BucketSubRegion \<mapsto> SubRegion ep,
                  util_BucketURL \<mapsto> BucketURL_joined ep obc]\<rparr>"
      by (intro NewBucketConfigMap_plain) simp_all
    then show "\<exists>cm. NewBucketConfigMap (Some ep) (Some obc) = Inr cm \<and>
            cm_Data cm util_BucketURL = Some (BucketURL_joined ep obc) \<and>
            (Region ep \<noteq> [] \<and> SubRegion ep \<noteq> [] \<and> BucketName ep \<noteq> [] \<longrightarrow>
               cm_Data cm util_BucketURL = Some (BucketURL_spec ep obc))"
      by (simp add: data_lookup BucketURL_joined_all del: fun_upd_apply)
  qed
qed

text \<open>The amended C2 at the scenario of the spec: the claim \<open>ns1/c1\<close> with SSL and the
  endpoint \<open>s3.example.com\<close>, port 0, region \<open>us\<close>, subregion \<open>east\<close>, bucket \<open>b1\<close> give
  \<open>BUCKET_URL = https://s3.example.com/us/east/b1\<close>, with no port segment.\<close>

theorem NewBucketConfigMap_URL_witness:
  "\<exists>cm. NewBucketConfigMap (Some endpoint_e1) (Some claim_c1) = Inr cm \<and>
     cm_Data cm util_BucketURL = Some ''https://s3.example.com/us/east/b1''"
proof -
  have h: "list_all host_char (BucketHost endpoint_e1) \<and> segment_ok (Region endpoint_e1) \<and>
      segment_ok (SubRegion endpoint_e1) \<and> segment_ok (BucketName endpoint_e1)"
    by (simp add: endpoint_e1_def host_char_def segment_ok_def plain_segment_def
          segment_char_def alnum_def between_def byte_def)
  have "BucketURL_joined endpoint_e1 claim_c1 = ''https://s3.example.com/us/east/b1''"
    by (simp add: BucketURL_joined_def endpoint_e1_def claim_c1_def)
  with NewBucketConfigMap_URL [where obc = claim_c1 and ep = endpoint_e1] h show ?thesis
    by auto
qed








section \<open>Finalizers and owner references\<close>




section \<open>Reclaim policy\<close>







end
